theory Spec2Isabelle
  imports Main "HOL-Library.Char_ord" "HOL-Library.List_Lexorder"
begin

section \<open>Python strings\<close>

text \<open>
  A Python \<open>str\<close> is a sequence of code points; \<open>len\<close> counts them. The model uses
  \<^typ>\<open>string\<close> with one \<^typ>\<open>char\<close> per code point, which covers the code points
  below 256. The order on \<^typ>\<open>char\<close> and the lexicographic order on lists are
  Python's order on strings.
\<close>

definition LF :: char where
  "LF = CHR 0x0A"

text \<open>
  \<open>str.isspace\<close> on one code point below 256: TAB, LF, VT, FF, CR, the separators
  0x1C to 0x1F, the space, NEL (0x85) and the no-break space (0xA0).
\<close>

definition py_isspace :: "char \<Rightarrow> bool" where
  "py_isspace c \<longleftrightarrow>
     (CHR 0x09 \<le> c \<and> c \<le> CHR 0x0D) \<or> (CHR 0x1C \<le> c \<and> c \<le> CHR 0x20) \<or>
     c = CHR 0x85 \<or> c = CHR 0xA0"

text \<open>\<open>s.strip()\<close>: the whitespace at both ends is removed.\<close>

definition py_strip :: "string \<Rightarrow> string" where
  "py_strip s = rev (dropWhile py_isspace (rev (dropWhile py_isspace s)))"

text \<open>\<open>s.replace(c, '')\<close> for a one-character \<open>c\<close>: every occurrence is deleted.\<close>

definition remove_char :: "char \<Rightarrow> string \<Rightarrow> string" where
  "remove_char c s = filter (\<lambda>x. x \<noteq> c) s"

text \<open>\<open>s.replace(c, d)\<close> for one-character \<open>c\<close> and \<open>d\<close>.\<close>

definition replace_char :: "char \<Rightarrow> char \<Rightarrow> string \<Rightarrow> string" where
  "replace_char c d s = map (\<lambda>x. if x = c then d else x) s"

text \<open>\<open>s.endswith(suffix)\<close>.\<close>

definition endswith :: "string \<Rightarrow> string \<Rightarrow> bool" where
  "endswith s suffix \<longleftrightarrow>
     length suffix \<le> length s \<and> drop (length s - length suffix) s = suffix"

section \<open>Python values\<close>

text \<open>
  The values the program handles beyond strings are what \<open>json\<close> reads and writes:
  \<open>None\<close>, booleans, integers, strings, lists, and dictionaries with string keys. A
  dictionary is the list of its items in insertion order, with distinct keys. JSON
  numbers with a fraction (Python floats) are outside the model.
\<close>

datatype json =
    JNull
  | JBool bool
  | JInt int
  | JStr string
  | JList "json list"
  | JObj "(string \<times> json) list"

type_synonym dict = "(string \<times> json) list"

text \<open>
  Exceptions, as far as the handlers of the program tell them apart:
  \<open>requests.exceptions.Timeout\<close>, \<open>subprocess.TimeoutExpired\<close>,
  \<open>FileNotFoundError\<close>, and every other \<open>Exception\<close>. Each carries \<open>str(e)\<close>.
  The texts of the exceptions the Python runtime raises are abridged.
\<close>

datatype exn =
    Timeout string
  | TimeoutExpired string
  | FileNotFoundError string
  | Error string

fun exn_str :: "exn \<Rightarrow> string" where
  "exn_str (Timeout m) = m"
| "exn_str (TimeoutExpired m) = m"
| "exn_str (FileNotFoundError m) = m"
| "exn_str (Error m) = m"

text \<open>\<open>d[k] = v\<close> on a dictionary: the value is replaced in place, a new key goes last.\<close>

fun dict_set :: "(string \<times> 'a) list \<Rightarrow> string \<Rightarrow> 'a \<Rightarrow> (string \<times> 'a) list" where
  "dict_set [] k v = [(k, v)]"
| "dict_set ((k', v') # d) k v = (if k' = k then (k, v) # d else (k', v') # dict_set d k v)"

text \<open>\<open>bool(x)\<close>: the truth value of a Python value.\<close>

fun py_truthy :: "json \<Rightarrow> bool" where
  "py_truthy JNull = False"
| "py_truthy (JBool b) = b"
| "py_truthy (JInt i) = (i \<noteq> 0)"
| "py_truthy (JStr s) = (s \<noteq> [])"
| "py_truthy (JList xs) = (xs \<noteq> [])"
| "py_truthy (JObj kvs) = (kvs \<noteq> [])"

text \<open>\<open>isinstance(x, dict)\<close>.\<close>

fun is_dict :: "json \<Rightarrow> bool" where
  "is_dict (JObj kvs) = True"
| "is_dict _ = False"

text \<open>\<open>len(x)\<close>.\<close>

fun py_len :: "json \<Rightarrow> exn + nat" where
  "py_len (JStr s) = Inr (length s)"
| "py_len (JList xs) = Inr (length xs)"
| "py_len (JObj kvs) = Inr (length kvs)"
| "py_len _ = Inl (Error ''object has no len()'')"

text \<open>\<open>sub in s\<close> on strings: \<open>sub\<close> occurs in \<open>s\<close> as a contiguous piece.\<close>

fun py_substring :: "string \<Rightarrow> string \<Rightarrow> bool" where
  "py_substring sub [] = (sub = [])"
| "py_substring sub (c # cs) = (take (length sub) (c # cs) = sub \<or> py_substring sub cs)"

text \<open>
  \<open>k in x\<close> for a string \<open>k\<close>: a key of a dictionary, an element of a list, a piece
  of a string; \<open>TypeError\<close> on \<open>None\<close>, a boolean or a number.
\<close>

fun str_in :: "string \<Rightarrow> json \<Rightarrow> exn + bool" where
  "str_in k (JObj kvs) = Inr (k \<in> set (map fst kvs))"
| "str_in k (JList xs) = Inr (JStr k \<in> set xs)"
| "str_in k (JStr s) = Inr (py_substring k s)"
| "str_in k _ = Inl (Error ''argument is not iterable'')"

text \<open>\<open>x.get(k, default)\<close>: only a dictionary has the method.\<close>

fun py_get :: "json \<Rightarrow> string \<Rightarrow> json \<Rightarrow> exn + json" where
  "py_get (JObj kvs) k d = Inr (case map_of kvs k of None \<Rightarrow> d | Some v \<Rightarrow> v)"
| "py_get _ k d = Inl (Error ''object has no attribute get'')"

text \<open>\<open>x[k]\<close> for a string \<open>k\<close>.\<close>

fun py_item :: "json \<Rightarrow> string \<Rightarrow> exn + json" where
  "py_item (JObj kvs) k = (case map_of kvs k of None \<Rightarrow> Inl (Error k) | Some v \<Rightarrow> Inr v)"
| "py_item _ k = Inl (Error ''indices must be integers'')"

text \<open>
  \<open>==\<close> and \<open>>\<close> on Python values. A boolean is the integer 0 or 1, lists compare
  element by element, dictionaries are equal when they hold equal values under the
  same keys, and \<open>>\<close> is defined between two numbers, two strings and two lists only.
\<close>

fun py_num :: "json \<Rightarrow> int option" where
  "py_num (JBool b) = Some (if b then 1 else 0)"
| "py_num (JInt i) = Some i"
| "py_num _ = None"

fun py_eq :: "json \<Rightarrow> json \<Rightarrow> bool" where
  "py_eq JNull y = (y = JNull)"
| "py_eq (JBool b) y = (py_num y = Some (if b then 1 else 0))"
| "py_eq (JInt i) y = (py_num y = Some i)"
| "py_eq (JStr s) y = (y = JStr s)"
| "py_eq (JList xs) y = (case y of JList ys \<Rightarrow> list_all2 py_eq xs ys | _ \<Rightarrow> False)"
| "py_eq (JObj kvs) y =
     (case y of
        JObj kvs' \<Rightarrow>
          length kvs = length kvs' \<and>
          list_all (\<lambda>kv. case map_of kvs' (fst kv) of None \<Rightarrow> False
                         | Some v' \<Rightarrow> py_eq (snd kv) v') kvs
      | _ \<Rightarrow> False)"

fun py_gt :: "json \<Rightarrow> json \<Rightarrow> exn + bool"
  and py_gt_list :: "json list \<Rightarrow> json list \<Rightarrow> exn + bool" where
  "py_gt (JStr a) y = (case y of JStr b \<Rightarrow> Inr (b < a) | _ \<Rightarrow> Inl (Error ''> not supported''))"
| "py_gt (JInt a) y = (case py_num y of Some b \<Rightarrow> Inr (b < a) | None \<Rightarrow> Inl (Error ''> not supported''))"
| "py_gt (JBool a) y =
     (case py_num y of Some b \<Rightarrow> Inr (b < (if a then 1 else 0))
      | None \<Rightarrow> Inl (Error ''> not supported''))"
| "py_gt (JList xs) y = (case y of JList ys \<Rightarrow> py_gt_list xs ys | _ \<Rightarrow> Inl (Error ''> not supported''))"
| "py_gt JNull y = Inl (Error ''> not supported'')"
| "py_gt (JObj kvs) y = Inl (Error ''> not supported'')"
| "py_gt_list [] ys = Inr False"
| "py_gt_list (x # xs) [] = Inr True"
| "py_gt_list (x # xs) (y # ys) = (if py_eq x y then py_gt_list xs ys else py_gt x y)"

text \<open>Decimal digits; \<open>str(n)\<close> for an integer.\<close>

definition digit :: "nat \<Rightarrow> char" where
  "digit n = ''0123456789'' ! (n mod 10)"

function str_nat :: "nat \<Rightarrow> string" where
  "str_nat n = (if n < 10 then [digit n] else str_nat (n div 10) @ [digit n])"
  by pat_completeness auto
termination
  by (relation "measure (\<lambda>n. n)") auto

declare str_nat.simps [simp del]

definition str_int :: "int \<Rightarrow> string" where
  "str_int i = (if i < 0 then ''-'' @ str_nat (nat (- i)) else str_nat (nat i))"

section \<open>What the program takes from outside\<close>

text \<open>
  An HTTP request as \<open>session.get\<close> receives it, and the response: the status code,
  the body as text, and what \<open>resp.json()\<close> returns or raises. The default headers of
  the session are left out of the request.
\<close>

record request =
  url :: string
  headers :: "(string \<times> string) list"
  params :: "(string \<times> string) list"
  timeout :: nat

record response =
  status_code :: int
  resp_text :: string
  resp_json :: "exn + json"

text \<open>The result of \<open>subprocess.run\<close> with captured output.\<close>

record completed =
  returncode :: int
  stdout :: string
  stderr :: string

text \<open>\<open>datetime.now()\<close>.\<close>

record datetime =
  year :: nat
  month :: nat
  day :: nat
  hour :: nat
  minute :: nat
  second :: nat
  microsecond :: nat

text \<open>
  The environment of one run: the third-party check \<open>validators.email\<close>, the process
  environment \<open>os.environ\<close>, the remote services behind \<open>session.get\<close>, the programs
  behind \<open>subprocess.run\<close> (argument vector and time limit), Python's \<open>repr\<close> on
  lists and dictionaries, the clock, and the \<open>REPORTS_DIRECTORY\<close> entry of the
  application's configuration. A service or program answers by the request alone, and
  the clock stands still during one call.
\<close>

record env =
  email_syntax :: "string \<Rightarrow> bool"
  environ :: "string \<rightharpoonup> string"
  http_get :: "request \<Rightarrow> exn + response"
  run_process :: "string list \<Rightarrow> nat option \<Rightarrow> exn + completed"
  py_repr :: "json \<Rightarrow> string"
  now :: datetime
  reports_directory :: string

text \<open>
  The state the program changes: the file system, and the trace of what it asked of the
  outside, in order. A regular file is a JSON document (what \<open>json.load\<close> reads back
  from what \<open>json.dump\<close> wrote) or something \<open>json.load\<close> fails on.
\<close>

datatype fsnode = Directory | JsonFile json | OtherFile

datatype effect =
    HttpGet request
  | Run "string list" "nat option"
  | Sleep nat
  | FsExists string
  | FsRead string
  | FsWrite string

record world =
  files :: "string \<rightharpoonup> fsnode"
  trace :: "effect list"

definition emit :: "effect \<Rightarrow> world \<Rightarrow> world" where
  "emit e w = w\<lparr>trace := trace w @ [e]\<rparr>"

text \<open>\<open>os.path.join(a, b)\<close> and \<open>os.path.dirname(p)\<close> of \<open>posixpath\<close>.\<close>

definition path_join :: "string \<Rightarrow> string \<Rightarrow> string" where
  "path_join a b =
     (if b \<noteq> [] \<and> hd b = CHR ''/'' then b
      else if a = [] \<or> last a = CHR ''/'' then a @ b
      else a @ ''/'' @ b)"

definition dirname :: "string \<Rightarrow> string" where
  "dirname p =
     (let head = rev (dropWhile (\<lambda>c. c \<noteq> CHR ''/'') (rev p))
      in if head \<noteq> [] \<and> \<not> list_all (\<lambda>c. c = CHR ''/'') head
         then rev (dropWhile (\<lambda>c. c = CHR ''/'') (rev head))
         else head)"

text \<open>\<open>os.path.basename(p)\<close>: what follows the last slash.\<close>

definition basename :: "string \<Rightarrow> string" where
  "basename p = rev (takeWhile (\<lambda>c. c \<noteq> CHR ''/'') (rev p))"

text \<open>
  \<open>open(path, 'w')\<close> followed by \<open>json.dump(doc, f)\<close>: the directory of the path
  must exist (the empty directory name is the current directory) and the path must not
  be a directory; the file then holds the document.
\<close>

definition write_json :: "string \<Rightarrow> json \<Rightarrow> world \<Rightarrow> (exn + unit) \<times> world" where
  "write_json path doc w =
     (let w1 = emit (FsWrite path) w
      in if dirname path \<noteq> [] \<and> files w (dirname path) \<noteq> Some Directory
         then (Inl (FileNotFoundError ''No such file or directory''), w1)
         else if files w path = Some Directory
         then (Inl (Error ''Is a directory''), w1)
         else (Inr (), w1\<lparr>files := (files w1)(path \<mapsto> JsonFile doc)\<rparr>))"

text \<open>\<open>strftime("%Y%m%d_%H%M%S")\<close> and \<open>isoformat()\<close> of a \<open>datetime\<close>.\<close>

definition pad2 :: "nat \<Rightarrow> string" where
  "pad2 n = [digit (n div 10), digit n]"

definition pad4 :: "nat \<Rightarrow> string" where
  "pad4 n = [digit (n div 1000), digit (n div 100), digit (n div 10), digit n]"

definition pad6 :: "nat \<Rightarrow> string" where
  "pad6 n = [digit (n div 100000), digit (n div 10000), digit (n div 1000),
             digit (n div 100), digit (n div 10), digit n]"

definition strftime_stamp :: "datetime \<Rightarrow> string" where
  "strftime_stamp t =
     pad4 (year t) @ pad2 (month t) @ pad2 (day t) @ ''_'' @
     pad2 (hour t) @ pad2 (minute t) @ pad2 (second t)"

definition isoformat :: "datetime \<Rightarrow> string" where
  "isoformat t =
     pad4 (year t) @ ''-'' @ pad2 (month t) @ ''-'' @ pad2 (day t) @ ''T'' @
     pad2 (hour t) @ '':'' @ pad2 (minute t) @ '':'' @ pad2 (second t) @
     (if microsecond t = 0 then [] else ''.'' @ pad6 (microsecond t))"

section \<open>The validator (class OSINTValidator)\<close>

text \<open>
  \<open>validate_email\<close>: \<open>validators.email(email) if email else False\<close>, used as a truth
  value.
\<close>

definition validate_email :: "env \<Rightarrow> string \<Rightarrow> bool" where
  "validate_email env email \<longleftrightarrow> (if email \<noteq> [] then email_syntax env email else False)"

text \<open>
  The character class \<open>[a-zA-Z0-9_.-]\<close> of the pattern in \<open>validate_username\<close>.
\<close>

definition username_char :: "char \<Rightarrow> bool" where
  "username_char c \<longleftrightarrow>
     (CHR ''a'' \<le> c \<and> c \<le> CHR ''z'') \<or> (CHR ''A'' \<le> c \<and> c \<le> CHR ''Z'') \<or>
     (CHR ''0'' \<le> c \<and> c \<le> CHR ''9'') \<or> c = CHR ''_'' \<or> c = CHR ''.'' \<or> c = CHR ''-''"

text \<open>
  \<open>re.match(r'^[a-zA-Z0-9_.-]+$', username) is not None\<close>. In \<open>osint.py\<close> as it
  stands the line of the pattern breaks right after the \<open>+\<close>; the pattern is read with
  its end anchor \<open>$\<close> there, the reading under which the line is Python and the
  pattern describes whole strings.

  The match starts at the beginning of the string, \<open>+\<close> takes the longest non-empty run
  of class characters, and Python's \<open>$\<close> (without \<open>re.MULTILINE\<close>) matches at the
  end of the string and also just before a line feed that is the last character. The
  class does not contain the line feed, so giving back characters of the run never helps:
  the match succeeds iff what follows the longest run is empty or one final line feed.
\<close>

definition re_match_username :: "string \<Rightarrow> bool" where
  "re_match_username s \<longleftrightarrow>
     (let run = takeWhile username_char s; rest = dropWhile username_char s
      in run \<noteq> [] \<and> (rest = [] \<or> rest = [LF]))"

text \<open>
  The two other ways to read the broken line, kept for comparison only: the pattern
  ending at the \<open>+\<close> with no anchor, which matches when the string starts with a
  class character, and the pattern with the line break as its last character, which
  matches when a line feed follows the run.
\<close>

definition re_match_username_unanchored :: "string \<Rightarrow> bool" where
  "re_match_username_unanchored s \<longleftrightarrow> takeWhile username_char s \<noteq> []"

definition re_match_username_linefeed :: "string \<Rightarrow> bool" where
  "re_match_username_linefeed s \<longleftrightarrow>
     takeWhile username_char s \<noteq> [] \<and> take 1 (dropWhile username_char s) = [LF]"

definition validate_username :: "string \<Rightarrow> bool" where
  "validate_username username \<longleftrightarrow>
     (if username = [] \<or> length username < 3 then False
      else re_match_username username)"

text \<open>
  Modelled from the spec: the eighth entry of the list \<open>dangerous_chars\<close> of
  \<open>sanitize_input\<close>. In \<open>osint.py\<close> as it stands the entry is a quote followed by a
  line break; the specification lists the line feed at this place of the deny list.
\<close>

definition dangerous_char_8 :: char where
  "dangerous_char_8 = LF"

text \<open>The list \<open>dangerous_chars\<close>.\<close>

definition dangerous_chars :: "char list" where
  "dangerous_chars =
     [CHR ''<'', CHR ''>'', CHR 0x22, CHR 0x27, CHR ''&'', CHR ''|'', CHR '';'',
      dangerous_char_8, CHR 0x60]"

text \<open>
  The loop \<open>for char in dangerous_chars: sanitized = sanitized.replace(char, '')\<close>.
\<close>

fun remove_chars :: "char list \<Rightarrow> string \<Rightarrow> string" where
  "remove_chars [] sanitized = sanitized"
| "remove_chars (char # chars) sanitized = remove_chars chars (remove_char char sanitized)"

definition sanitize_input :: "string \<Rightarrow> string" where
  "sanitize_input input_str =
     (if input_str = [] then []
      else py_strip (remove_chars dangerous_chars input_str))"

section \<open>The reporter (class OSINTReporter)\<close>

text \<open>
  The report is a dictionary with fixed keys, and so are its summary and its metadata;
  \<open>detailed_results\<close> is the outcome map, from source names to outcomes.
\<close>

record summary =
  risk_level :: string
  breaches_found :: bool
  social_accounts :: int
  email_reputation :: string

record metadata =
  total_sources :: nat
  successful_sources :: nat
  failed_sources :: nat

record report =
  target :: string
  timestamp :: string
  summary :: summary
  detailed_results :: dict
  metadata :: metadata

text \<open>\<open>_generate_summary\<close>.\<close>

definition generate_summary :: "dict \<Rightarrow> summary" where
  "generate_summary results =
     (let summary0 = \<lparr>risk_level = ''low'', breaches_found = False,
                       social_accounts = 0, email_reputation = ''unknown''\<rparr>
      in case map_of results ''haveibeenpwned'' of
           None \<Rightarrow> summary0
         | Some h \<Rightarrow>
             if py_truthy h then
               (case h of
                  JList breaches \<Rightarrow>
                    if length breaches > 0
                    then summary0\<lparr>breaches_found := True,
                                  risk_level := (if length breaches > 3 then ''high'' else ''medium'')\<rparr>
                    else summary0
                | _ \<Rightarrow> summary0)
             else summary0)"

text \<open>
  A list comprehension \<open>[r for r in rs if p(r)]\<close> whose test can raise: the first
  exception ends it.
\<close>

fun filter_exn :: "('a \<Rightarrow> exn + bool) \<Rightarrow> 'a list \<Rightarrow> exn + 'a list" where
  "filter_exn p [] = Inr []"
| "filter_exn p (x # xs) =
     (case p x of
        Inl e \<Rightarrow> Inl e
      | Inr b \<Rightarrow>
          (case filter_exn p xs of
             Inl e \<Rightarrow> Inl e
           | Inr ys \<Rightarrow> Inr (if b then x # ys else ys)))"

definition str_not_in :: "string \<Rightarrow> json \<Rightarrow> exn + bool" where
  "str_not_in k r = (case str_in k r of Inl e \<Rightarrow> Inl e | Inr b \<Rightarrow> Inr (\<not> b))"

text \<open>\<open>generate_report\<close>; the two counts are taken in the order of the source.\<close>

definition generate_report :: "env \<Rightarrow> string \<Rightarrow> dict \<Rightarrow> exn + report" where
  "generate_report env tgt results =
     (case filter_exn (str_not_in ''error'') (map snd results) of
        Inl e \<Rightarrow> Inl e
      | Inr successful \<Rightarrow>
          (case filter_exn (str_in ''error'') (map snd results) of
             Inl e \<Rightarrow> Inl e
           | Inr failed \<Rightarrow>
               Inr \<lparr>target = tgt,
                    timestamp = isoformat (now env),
                    summary = generate_summary results,
                    detailed_results = results,
                    metadata = \<lparr>total_sources = length results,
                                successful_sources = length successful,
                                failed_sources = length failed\<rparr>\<rparr>))"

text \<open>The report as the JSON document \<open>json.dump\<close> writes.\<close>

definition summary_json :: "summary \<Rightarrow> json" where
  "summary_json s =
     JObj [(''risk_level'', JStr (risk_level s)),
           (''breaches_found'', JBool (breaches_found s)),
           (''social_accounts'', JInt (social_accounts s)),
           (''email_reputation'', JStr (email_reputation s))]"

definition metadata_json :: "metadata \<Rightarrow> json" where
  "metadata_json m =
     JObj [(''total_sources'', JInt (int (total_sources m))),
           (''successful_sources'', JInt (int (successful_sources m))),
           (''failed_sources'', JInt (int (failed_sources m)))]"

definition report_json :: "report \<Rightarrow> json" where
  "report_json r =
     JObj [(''target'', JStr (target r)),
           (''timestamp'', JStr (timestamp r)),
           (''summary'', summary_json (summary r)),
           (''detailed_results'', JObj (detailed_results r)),
           (''metadata'', metadata_json (metadata r))]"

text \<open>
  \<open>OSINTReporter.__init__\<close>: \<open>os.makedirs(reports_dir, exist_ok=True)\<close>, for a
  directory directly under an existing one.
\<close>

definition makedirs :: "string \<Rightarrow> world \<Rightarrow> (exn + unit) \<times> world" where
  "makedirs d w =
     (case files w d of
        None \<Rightarrow> (Inr (), w\<lparr>files := (files w)(d \<mapsto> Directory)\<rparr>)
      | Some Directory \<Rightarrow> (Inr (), w)
      | Some _ \<Rightarrow> (Inl (Error ''File exists''), w))"

text \<open>
  \<open>save_report\<close>, with \<open>self.reports_dir\<close> as its first argument. The name of the file
  is made from the target when the caller gives none (or an empty one).
\<close>

definition report_filename :: "env \<Rightarrow> report \<Rightarrow> string" where
  "report_filename env r =
     ''osint_report_'' @ replace_char (CHR ''.'') (CHR ''_'') (replace_char (CHR ''@'') (CHR ''_'') (target r)) @
     ''_'' @ strftime_stamp (now env) @ ''.json''"

definition save_report :: "string \<Rightarrow> env \<Rightarrow> report \<Rightarrow> string option \<Rightarrow> world \<Rightarrow> (exn + string) \<times> world" where
  "save_report reports_dir env r filename w =
     (let filename' = (case filename of
                         None \<Rightarrow> report_filename env r
                       | Some f \<Rightarrow> if f = [] then report_filename env r else f);
          filepath = path_join reports_dir filename'
      in case write_json filepath (report_json r) w of
           (Inl e, w') \<Rightarrow> (Inl e, w')
         | (Inr u, w') \<Rightarrow> (Inr filepath, w'))"

section \<open>The source adapters (class EnhancedOSINT)\<close>

text \<open>
  The messages of the program are Arabic; the model carries them in English. No
  property below depends on their wording. An adapter returns its outcome, a
  dictionary, and the state after its calls; a failure is an outcome with the key
  \<open>error\<close>.
\<close>

definition error_outcome :: "string \<Rightarrow> json" where
  "error_outcome msg = JObj [(''error'', JStr msg)]"

definition bind_exn :: "exn + 'a \<Rightarrow> ('a \<Rightarrow> exn + 'b) \<Rightarrow> exn + 'b" where
  "bind_exn x f = (case x of Inl e \<Rightarrow> Inl e | Inr v \<Rightarrow> f v)"

text \<open>\<open>os.environ.get(name)\<close> followed by \<open>if not api_key\<close>.\<close>

definition api_key :: "env \<Rightarrow> string \<Rightarrow> string option" where
  "api_key env name =
     (case environ env name of None \<Rightarrow> None | Some k \<Rightarrow> if k = [] then None else Some k)"

definition session_get :: "env \<Rightarrow> request \<Rightarrow> world \<Rightarrow> (exn + response) \<times> world" where
  "session_get env req w = (http_get env req, emit (HttpGet req) w)"

text \<open>
  The handlers: \<open>haveibeenpwned\<close> tells a timeout of the connection from the other
  exceptions, the other HTTP adapters have one handler for all.
\<close>

definition hibp_handler :: "exn \<Rightarrow> json" where
  "hibp_handler e =
     (case e of
        Timeout m \<Rightarrow> error_outcome ''connection timed out''
      | _ \<Rightarrow> error_outcome (''unexpected error: '' @ exn_str e))"

definition http_handler :: "exn \<Rightarrow> json" where
  "http_handler e = error_outcome (''unexpected error: '' @ exn_str e)"

text \<open>
  Iterating over a value: the elements of a list, the keys of a dictionary, the
  characters of a string.
\<close>

fun py_iter :: "json \<Rightarrow> exn + json list" where
  "py_iter (JList xs) = Inr xs"
| "py_iter (JObj kvs) = Inr (map (\<lambda>kv. JStr (fst kv)) kvs)"
| "py_iter (JStr s) = Inr (map (\<lambda>c. JStr [c]) s)"
| "py_iter _ = Inl (Error ''object is not iterable'')"

text \<open>
  \<open>max(items, key=key)\<close> after its first item: a later item replaces the maximum when
  its key is greater.
\<close>

fun py_max_by :: "(json \<Rightarrow> exn + json) \<Rightarrow> json \<Rightarrow> json \<Rightarrow> json list \<Rightarrow> exn + json" where
  "py_max_by key m mk [] = Inr m"
| "py_max_by key m mk (x # xs) =
     bind_exn (key x) (\<lambda>k.
     bind_exn (py_gt k mk) (\<lambda>greater.
       if greater then py_max_by key x k xs else py_max_by key m mk xs))"

definition breach_date :: "json \<Rightarrow> exn + json" where
  "breach_date x = py_get x ''BreachDate'' (JStr [])"

text \<open>
  \<open>max(breaches, key=lambda x: x.get('BreachDate', ''))['Name'] if breaches else None\<close>.
\<close>

definition last_breach :: "json \<Rightarrow> exn + json" where
  "last_breach breaches =
     (if py_truthy breaches then
        bind_exn (py_iter breaches) (\<lambda>items.
          case items of
            [] \<Rightarrow> Inl (Error ''max() arg is an empty sequence'')
          | x # xs \<Rightarrow>
              bind_exn (breach_date x) (\<lambda>k.
              bind_exn (py_max_by breach_date x k xs) (\<lambda>m. py_item m ''Name'')))
      else Inr JNull)"

definition hibp_found :: "response \<Rightarrow> exn + json" where
  "hibp_found resp =
     bind_exn (resp_json resp) (\<lambda>breaches.
     bind_exn (py_len breaches) (\<lambda>n.
     bind_exn (last_breach breaches) (\<lambda>lb.
       Inr (JObj [(''status'', JStr ''found''),
                  (''breach_count'', JInt (int n)),
                  (''breaches'', breaches),
                  (''last_breach'', lb)]))))"

definition haveibeenpwned :: "env \<Rightarrow> string \<Rightarrow> world \<Rightarrow> json \<times> world" where
  "haveibeenpwned env email w =
     (if \<not> validate_email env email then (error_outcome ''invalid email address'', w)
      else case api_key env ''HIBP_API_KEY'' of
        None \<Rightarrow> (error_outcome ''API key required for HaveIBeenPwned'', w)
      | Some key \<Rightarrow>
          (let req = \<lparr>url = ''https://haveibeenpwned.com/api/v3/breachedaccount/'' @ email @
                            ''?truncateResponse=false'',
                      headers = [(''hibp-api-key'', key), (''User-Agent'', ''OSINT-Toolkit/2.0'')],
                      params = [], timeout = 15\<rparr>;
               (r, w') = session_get env req w
           in (case r of
                 Inl e \<Rightarrow> hibp_handler e
               | Inr resp \<Rightarrow>
                   if status_code resp = 200 then
                     (case hibp_found resp of Inl e \<Rightarrow> hibp_handler e | Inr found \<Rightarrow> found)
                   else if status_code resp = 404 then
                     JObj [(''status'', JStr ''clean''), (''breach_count'', JInt 0),
                           (''message'', JStr ''no breaches found'')]
                   else error_outcome (''API error: '' @ str_int (status_code resp) @ '' - '' @
                                       resp_text resp),
               w')))"

text \<open>
  A dictionary built from \<open>x.get(k, default)\<close> for each listed key and default, in
  order.
\<close>

fun get_fields :: "json \<Rightarrow> (string \<times> json) list \<Rightarrow> exn + dict" where
  "get_fields x [] = Inr []"
| "get_fields x ((k, d) # ks) =
     bind_exn (py_get x k d) (\<lambda>v.
     bind_exn (get_fields x ks) (\<lambda>rest. Inr ((k, v) # rest)))"

text \<open>
  The status 200 of \<open>hunterio\<close>: the fields of \<open>data['data']\<close>, or nothing when the
  body has no \<open>data\<close>; the adapter then falls through to its error return.
\<close>

definition hunterio_fields :: "response \<Rightarrow> exn + json option" where
  "hunterio_fields resp =
     bind_exn (resp_json resp) (\<lambda>data.
     bind_exn (str_in ''data'' data) (\<lambda>present.
       if present then
         bind_exn (py_item data ''data'') (\<lambda>result.
         bind_exn (get_fields result
                     [(''status'', JStr ''unknown''), (''result'', JStr ''unknown''),
                      (''score'', JInt 0), (''mx_records'', JBool False),
                      (''smtp_server'', JBool False), (''sources'', JList [])])
           (\<lambda>shaped. Inr (Some (JObj shaped))))
       else Inr None))"

definition hunterio :: "env \<Rightarrow> string \<Rightarrow> world \<Rightarrow> json \<times> world" where
  "hunterio env email w =
     (if \<not> validate_email env email then (error_outcome ''invalid email address'', w)
      else case api_key env ''HUNTER_API_KEY'' of
        None \<Rightarrow> (error_outcome ''API key required for Hunter.io'', w)
      | Some key \<Rightarrow>
          (let req = \<lparr>url = ''https://api.hunter.io/v2/email-verifier'', headers = [],
                      params = [(''email'', email), (''api_key'', key)], timeout = 15\<rparr>;
               (r, w') = session_get env req w;
               api_error = (\<lambda>resp. error_outcome (''API error: '' @ str_int (status_code resp)))
           in (case r of
                 Inl e \<Rightarrow> http_handler e
               | Inr resp \<Rightarrow>
                   if status_code resp = 200 then
                     (case hunterio_fields resp of
                        Inl e \<Rightarrow> http_handler e
                      | Inr (Some shaped) \<Rightarrow> shaped
                      | Inr None \<Rightarrow> api_error resp)
                   else api_error resp,
               w')))"

definition leakcheck :: "env \<Rightarrow> string \<Rightarrow> world \<Rightarrow> json \<times> world" where
  "leakcheck env email w =
     (if \<not> validate_email env email then (error_outcome ''invalid email address'', w)
      else case api_key env ''LEAKCHECK_API_KEY'' of
        None \<Rightarrow> (error_outcome ''API key required for LeakCheck'', w)
      | Some key \<Rightarrow>
          (let req = \<lparr>url = ''https://leakcheck.io/api/public'', headers = [],
                      params = [(''key'', key), (''check'', email), (''type'', ''email'')],
                      timeout = 15\<rparr>;
               (r, w') = session_get env req w
           in (case r of
                 Inl e \<Rightarrow> http_handler e
               | Inr resp \<Rightarrow>
                   if status_code resp = 200 then
                     (case resp_json resp of Inl e \<Rightarrow> http_handler e | Inr body \<Rightarrow> body)
                   else error_outcome (''API error: '' @ str_int (status_code resp)),
               w')))"

definition emailrep_fields :: "response \<Rightarrow> exn + json" where
  "emailrep_fields resp =
     bind_exn (resp_json resp) (\<lambda>data.
     bind_exn (get_fields data
                 [(''reputation'', JStr ''unknown''), (''suspicious'', JBool False),
                  (''references'', JInt 0), (''blacklisted'', JBool False),
                  (''malicious_activity'', JBool False), (''credentials_leaked'', JBool False),
                  (''first_seen'', JNull), (''last_seen'', JNull)])
       (\<lambda>shaped. Inr (JObj shaped)))"

definition not_found_outcome :: json where
  "not_found_outcome = JObj [(''status'', JStr ''not_found''), (''message'', JStr ''no information found'')]"

definition emailrep :: "env \<Rightarrow> string \<Rightarrow> world \<Rightarrow> json \<times> world" where
  "emailrep env email w =
     (if \<not> validate_email env email then (error_outcome ''invalid email address'', w)
      else
        (let req = \<lparr>url = ''https://emailrep.io/'' @ email, headers = [], params = [], timeout = 15\<rparr>;
             (r, w') = session_get env req w
         in (case r of
               Inl e \<Rightarrow> http_handler e
             | Inr resp \<Rightarrow>
                 if status_code resp = 200 then
                   (case emailrep_fields resp of Inl e \<Rightarrow> http_handler e | Inr shaped \<Rightarrow> shaped)
                 else if status_code resp = 404 then not_found_outcome
                 else error_outcome (''API error: '' @ str_int (status_code resp)),
             w')))"

text \<open>
  \<open>str(x)\<close> inside an f-string, and \<open>data.get(a, {}).get(b, '')\<close>.
\<close>

definition py_str :: "env \<Rightarrow> json \<Rightarrow> string" where
  "py_str env x =
     (case x of
        JStr s \<Rightarrow> s
      | JInt i \<Rightarrow> str_int i
      | JBool b \<Rightarrow> (if b then ''True'' else ''False'')
      | JNull \<Rightarrow> ''None''
      | _ \<Rightarrow> py_repr env x)"

definition get2 :: "json \<Rightarrow> string \<Rightarrow> string \<Rightarrow> exn + json" where
  "get2 data a b = bind_exn (py_get data a (JObj [])) (\<lambda>inner. py_get inner b (JStr []))"

definition clearbit_fields :: "env \<Rightarrow> response \<Rightarrow> exn + json" where
  "clearbit_fields env resp =
     bind_exn (resp_json resp) (\<lambda>data.
     bind_exn (get2 data ''name'' ''givenName'') (\<lambda>given.
     bind_exn (get2 data ''name'' ''familyName'') (\<lambda>family.
     bind_exn (get2 data ''geo'' ''city'') (\<lambda>city.
     bind_exn (get2 data ''employment'' ''name'') (\<lambda>company.
     bind_exn (get2 data ''employment'' ''title'') (\<lambda>title.
     bind_exn (get2 data ''linkedin'' ''handle'') (\<lambda>linkedin.
     bind_exn (get2 data ''twitter'' ''handle'') (\<lambda>twitter.
     bind_exn (get2 data ''github'' ''handle'') (\<lambda>github.
       Inr (JObj [(''name'', JStr (py_strip (py_str env given @ '' '' @ py_str env family))),
                  (''location'', city),
                  (''company'', company),
                  (''title'', title),
                  (''linkedin'', linkedin),
                  (''twitter'', twitter),
                  (''github'', github)]))))))))))"

definition clearbit :: "env \<Rightarrow> string \<Rightarrow> world \<Rightarrow> json \<times> world" where
  "clearbit env email w =
     (if \<not> validate_email env email then (error_outcome ''invalid email address'', w)
      else case api_key env ''CLEARBIT_API_KEY'' of
        None \<Rightarrow> (error_outcome ''API key required for Clearbit'', w)
      | Some key \<Rightarrow>
          (let req = \<lparr>url = ''https://person.clearbit.com/v2/people/find?email='' @ email,
                      headers = [(''Authorization'', ''Bearer '' @ key)],
                      params = [], timeout = 15\<rparr>;
               (r, w') = session_get env req w
           in (case r of
                 Inl e \<Rightarrow> http_handler e
               | Inr resp \<Rightarrow>
                   if status_code resp = 200 then
                     (case clearbit_fields env resp of Inl e \<Rightarrow> http_handler e | Inr shaped \<Rightarrow> shaped)
                   else if status_code resp = 404 then not_found_outcome
                   else error_outcome (''API error: '' @ str_int (status_code resp) @ '' - '' @
                                       resp_text resp),
               w')))"

subsection \<open>External programs\<close>

text \<open>
  The argument \<open>cmd\<close> of \<open>safe_subprocess_call\<close> is a list of strings wherever the
  class calls it; a single string reaches it only when the method is called by name
  from outside. \<open>cmd[0]\<close> is the first string of a list and the first character of a
  string, and \<open>subprocess.run\<close> takes a string as the name of the program.
\<close>

datatype cmd = ArgList "string list" | ArgStr string

fun cmd_first :: "cmd \<Rightarrow> exn + string" where
  "cmd_first (ArgList []) = Inl (Error ''list index out of range'')"
| "cmd_first (ArgList (a # as)) = Inr a"
| "cmd_first (ArgStr []) = Inl (Error ''string index out of range'')"
| "cmd_first (ArgStr (c # cs)) = Inr [c]"

fun cmd_argv :: "cmd \<Rightarrow> string list" where
  "cmd_argv (ArgList as) = as"
| "cmd_argv (ArgStr s) = [s]"

text \<open>
  \<open>_command_exists\<close>: the probe runs the command with \<open>--version\<close> and no time
  limit; with \<open>check=True\<close> an exit code other than 0 raises \<open>CalledProcessError\<close>,
  which the probe answers with \<open>False\<close>, as it does \<open>FileNotFoundError\<close>.
\<close>

definition command_exists :: "env \<Rightarrow> string \<Rightarrow> world \<Rightarrow> (exn + bool) \<times> world" where
  "command_exists env command w =
     (case run_process env [command, ''--version''] None of
        Inr finished \<Rightarrow> Inr (returncode finished = 0)
      | Inl (FileNotFoundError m) \<Rightarrow> Inr False
      | Inl e \<Rightarrow> Inl e,
      emit (Run [command, ''--version''] None) w)"

definition subprocess_handler :: "nat \<Rightarrow> string \<Rightarrow> exn \<Rightarrow> json" where
  "subprocess_handler limit cmd0 e =
     (case e of
        TimeoutExpired m \<Rightarrow> error_outcome (''command timed out ('' @ str_nat limit @ '' seconds)'')
      | FileNotFoundError m \<Rightarrow> error_outcome (''command not found: '' @ cmd0)
      | _ \<Rightarrow> error_outcome (''execution error: '' @ exn_str e))"

definition safe_subprocess_call :: "env \<Rightarrow> cmd \<Rightarrow> nat \<Rightarrow> world \<Rightarrow> json \<times> world" where
  "safe_subprocess_call env cmd limit w =
     (case cmd_first cmd of
        Inl e \<Rightarrow> (subprocess_handler limit [] e, w)
      | Inr cmd0 \<Rightarrow>
          (let (found, w1) = command_exists env cmd0 w
           in case found of
                Inl e \<Rightarrow> (subprocess_handler limit cmd0 e, w1)
              | Inr False \<Rightarrow> (error_outcome (''command not available: '' @ cmd0), w1)
              | Inr True \<Rightarrow>
                  (case run_process env (cmd_argv cmd) (Some limit) of
                     Inl e \<Rightarrow> subprocess_handler limit cmd0 e
                   | Inr finished \<Rightarrow>
                       if returncode finished = 0
                       then JObj [(''output'', JStr (stdout finished)), (''status'', JStr ''success'')]
                       else JObj [(''error'', JStr (if stderr finished \<noteq> [] then stderr finished
                                                    else ''command execution failed'')),
                                  (''status'', JStr ''failed'')],
                   emit (Run (cmd_argv cmd) (Some limit)) w1)))"

definition socialscan :: "env \<Rightarrow> string \<Rightarrow> world \<Rightarrow> json \<times> world" where
  "socialscan env email w =
     (if \<not> validate_email env email then (error_outcome ''invalid email address'', w)
      else safe_subprocess_call env (ArgList [''socialscan'', email]) 120 w)"

definition holehe :: "env \<Rightarrow> string \<Rightarrow> world \<Rightarrow> json \<times> world" where
  "holehe env email w =
     (if \<not> validate_email env email then (error_outcome ''invalid email address'', w)
      else safe_subprocess_call env (ArgList [''holehe'', email]) 120 w)"

definition sherlock :: "env \<Rightarrow> string \<Rightarrow> world \<Rightarrow> json \<times> world" where
  "sherlock env username w =
     (if \<not> validate_username username then (error_outcome ''invalid username'', w)
      else safe_subprocess_call env
             (ArgList [''sherlock'', sanitize_input username, ''--print-found'']) 180 w)"

definition maigret :: "env \<Rightarrow> string \<Rightarrow> world \<Rightarrow> json \<times> world" where
  "maigret env username w =
     (if \<not> validate_username username then (error_outcome ''invalid username'', w)
      else safe_subprocess_call env
             (ArgList [''maigret'', sanitize_input username, ''--print-found'']) 180 w)"

subsection \<open>The comprehensive search\<close>

text \<open>
  The two tables of \<open>comprehensive_search\<close>, in their order, and its loops: each source
  is called on the target and its outcome stored under its name; the loop over the
  email sources sleeps one second after each call. Every adapter returns an outcome
  and raises nothing, so the \<open>except\<close> branch inside the loops is never taken.
\<close>

type_synonym adapter = "string \<Rightarrow> world \<Rightarrow> json \<times> world"

definition email_sources :: "env \<Rightarrow> (string \<times> adapter) list" where
  "email_sources env =
     [(''haveibeenpwned'', haveibeenpwned env),
      (''hunterio'', hunterio env),
      (''leakcheck'', leakcheck env),
      (''emailrep'', emailrep env),
      (''clearbit'', clearbit env),
      (''holehe'', holehe env),
      (''socialscan'', socialscan env)]"

definition username_sources :: "env \<Rightarrow> (string \<times> adapter) list" where
  "username_sources env =
     [(''sherlock'', sherlock env),
      (''maigret'', maigret env)]"

fun run_sources :: "(string \<times> adapter) list \<Rightarrow> bool \<Rightarrow> string \<Rightarrow> dict \<Rightarrow> world \<Rightarrow> dict \<times> world" where
  "run_sources [] pause tgt results w = (results, w)"
| "run_sources ((source_name, source_func) # rest) pause tgt results w =
     (let (outcome, w1) = source_func tgt w;
          w2 = (if pause then emit (Sleep 1) w1 else w1)
      in run_sources rest pause tgt (dict_set results source_name outcome) w2)"

text \<open>
  What \<open>comprehensive_search\<close> returns: the dictionary with the single key \<open>error\<close>,
  or the dictionary of the finished search.
\<close>

record search_data =
  search_target :: string
  target_type :: string
  search_results :: dict
  search_report :: report
  report_saved_to :: string
  search_timestamp :: string

datatype search_result = SearchError string | SearchDone search_data

text \<open>The reporter of the engine is \<open>OSINTReporter()\<close>, with the default directory.\<close>

definition osint_reports_dir :: string where
  "osint_reports_dir = ''./reports''"

definition classify :: "env \<Rightarrow> string \<Rightarrow> string \<Rightarrow> string option" where
  "classify env tgt ttype =
     (if ttype = ''auto'' then
        (if validate_email env tgt then Some ''email''
         else if validate_username tgt then Some ''username''
         else None)
      else Some ttype)"

definition comprehensive_search :: "env \<Rightarrow> string \<Rightarrow> string \<Rightarrow> world \<Rightarrow> search_result \<times> world" where
  "comprehensive_search env tgt ttype w =
     (case classify env tgt ttype of
        None \<Rightarrow> (SearchError ''unsupported target type'', w)
      | Some ttype' \<Rightarrow>
          (let (results, w1) =
                 (if ttype' = ''email'' then run_sources (email_sources env) True tgt [] w
                  else if ttype' = ''username'' then run_sources (username_sources env) False tgt [] w
                  else ([], w))
           in case generate_report env tgt results of
                Inl e \<Rightarrow> (SearchError (''comprehensive search error: '' @ exn_str e), w1)
              | Inr rep \<Rightarrow>
                  (case save_report osint_reports_dir env rep None w1 of
                     (Inl e, w2) \<Rightarrow> (SearchError (''comprehensive search error: '' @ exn_str e), w2)
                   | (Inr report_path, w2) \<Rightarrow>
                       (SearchDone \<lparr>search_target = tgt, target_type = ttype', search_results = results,
                                    search_report = rep, report_saved_to = report_path,
                                    search_timestamp = isoformat (now env)\<rparr>, w2))))"

definition search_result_json :: "search_result \<Rightarrow> json" where
  "search_result_json r =
     (case r of
        SearchError msg \<Rightarrow> error_outcome msg
      | SearchDone d \<Rightarrow>
          JObj [(''target'', JStr (search_target d)),
                (''target_type'', JStr (target_type d)),
                (''results'', JObj (search_results d)),
                (''report'', report_json (search_report d)),
                (''report_saved_to'', JStr (report_saved_to d)),
                (''timestamp'', JStr (search_timestamp d))])"

section \<open>The routes of the application (app.py)\<close>

text \<open>
  A route answers with its data and status 200, or with a status and an error message.
\<close>

datatype 'a api_response = Ok200 'a | Failed nat string

subsection \<open>Checking one email against chosen sources\<close>

text \<open>
  \<open>api_email_check\<close> looks each requested name up on the engine object:
  \<open>hasattr(osint, source)\<close>, then \<open>getattr(osint, source)(email)\<close>. The names the
  object answers to are the nine adapters, the other methods and the fields the class
  defines, and what every Python object inherits (as of Python 3.11).

  Calling one of them with the email gives a value or raises. A value is JSON, or
  something \<open>jsonify\<close> cannot write: the coroutine \<open>async_osint_search\<close> returns
  without running, and \<open>NotImplemented\<close>. The fields and most inherited names raise
  \<open>TypeError\<close> or \<open>AttributeError\<close> on the call (for \<open>__getattribute__\<close> and
  \<open>__delattr__\<close>: when the email is not itself the name of an attribute).
\<close>

datatype pyval = Json json | Unserializable

definition adapters :: "env \<Rightarrow> (string \<times> adapter) list" where
  "adapters env = email_sources env @ username_sources env"

definition raising_attrs :: "string list" where
  "raising_attrs =
     [''validator'', ''reporter'', ''session'', ''__init__'', ''_async_source_call'',
      ''__class__'', ''__delattr__'', ''__dict__'', ''__dir__'', ''__doc__'', ''__format__'',
      ''__getattribute__'', ''__getstate__'', ''__hash__'', ''__init_subclass__'',
      ''__module__'', ''__new__'', ''__reduce__'', ''__reduce_ex__'', ''__repr__'',
      ''__setattr__'', ''__sizeof__'', ''__str__'', ''__weakref__'']"

definition not_implemented_attrs :: "string list" where
  "not_implemented_attrs =
     [''__eq__'', ''__ne__'', ''__lt__'', ''__le__'', ''__gt__'', ''__ge__'', ''__subclasshook__'']"

definition attr_names :: "env \<Rightarrow> string list" where
  "attr_names env =
     map fst (adapters env) @
     [''comprehensive_search'', ''safe_subprocess_call'', ''_command_exists'', ''async_osint_search''] @
     not_implemented_attrs @ raising_attrs"

definition call_attr :: "env \<Rightarrow> string \<Rightarrow> string \<Rightarrow> world \<Rightarrow> ((exn + pyval) \<times> world) option" where
  "call_attr env source email w =
     (case map_of (adapters env) source of
        Some attr \<Rightarrow> Some (let (outcome, w') = attr email w in (Inr (Json outcome), w'))
      | None \<Rightarrow>
          if source = ''comprehensive_search'' then
            Some (let (r, w') = comprehensive_search env email ''auto'' w
                  in (Inr (Json (search_result_json r)), w'))
          else if source = ''safe_subprocess_call'' then
            Some (let (outcome, w') = safe_subprocess_call env (ArgStr email) 60 w
                  in (Inr (Json outcome), w'))
          else if source = ''_command_exists'' then
            Some (let (r, w') = command_exists env email w
                  in (case r of Inl e \<Rightarrow> Inl e | Inr b \<Rightarrow> Inr (Json (JBool b)), w'))
          else if source = ''async_osint_search'' then Some (Inr Unserializable, w)
          else if source \<in> set not_implemented_attrs then Some (Inr Unserializable, w)
          else if source \<in> set raising_attrs then Some (Inl (Error ''object is not callable''), w)
          else None)"

text \<open>The loop \<open>for source in sources\<close> of \<open>api_email_check\<close>.\<close>

fun check_sources :: "env \<Rightarrow> string list \<Rightarrow> string \<Rightarrow> (string \<times> pyval) list \<Rightarrow> world
    \<Rightarrow> (string \<times> pyval) list \<times> world" where
  "check_sources env [] email results w = (results, w)"
| "check_sources env (source # rest) email results w =
     (case call_attr env source email w of
        None \<Rightarrow> check_sources env rest email results w
      | Some (Inr v, w') \<Rightarrow> check_sources env rest email (dict_set results source v) w'
      | Some (Inl e, w') \<Rightarrow>
          check_sources env rest email
            (dict_set results source (Json (error_outcome (''error in '' @ source @ '': '' @ exn_str e)))) w')"

text \<open>\<open>str.lower\<close> on the code points below 256.\<close>

definition py_lower_char :: "char \<Rightarrow> char" where
  "py_lower_char c =
     (if (CHR ''A'' \<le> c \<and> c \<le> CHR ''Z'') \<or> (CHR 0xC0 \<le> c \<and> c \<le> CHR 0xDE \<and> c \<noteq> CHR 0xD7)
      then char_of (of_char c + (32::nat)) else c)"

definition py_lower :: "string \<Rightarrow> string" where
  "py_lower s = map py_lower_char s"

record email_check =
  checked_email :: string
  check_results :: "(string \<times> json) list"
  check_timestamp :: string

text \<open>
  \<open>jsonify\<close> on the outcome map: it fails when a value cannot be written as JSON.
\<close>

fun jsonify_results :: "(string \<times> pyval) list \<Rightarrow> (string \<times> json) list option" where
  "jsonify_results [] = Some []"
| "jsonify_results ((k, Json j) # rest) =
     (case jsonify_results rest of None \<Rightarrow> None | Some js \<Rightarrow> Some ((k, j) # js))"
| "jsonify_results ((k, Unserializable) # rest) = None"

text \<open>
  \<open>api_email_check\<close>, from the parsed body on: the field \<open>email\<close> and the optional
  list \<open>sources\<close>. The limit on the rate of requests is not part of the model. An
  answer that \<open>jsonify\<close> cannot write ends in the handler for status 500.
\<close>

definition api_email_check :: "env \<Rightarrow> string \<Rightarrow> string list option \<Rightarrow> world
    \<Rightarrow> email_check api_response \<times> world" where
  "api_email_check env email_field sources_field w =
     (let email = py_lower (py_strip email_field);
          sources = (case sources_field of None \<Rightarrow> [''haveibeenpwned'', ''emailrep''] | Some l \<Rightarrow> l)
      in if \<not> validate_email env email then (Failed 400 ''invalid email address'', w)
         else
           (let (results, w') = check_sources env sources email [] w
            in case jsonify_results results of
                 Some written \<Rightarrow>
                   (Ok200 \<lparr>checked_email = email, check_results = written,
                           check_timestamp = isoformat (now env)\<rparr>, w')
               | None \<Rightarrow> (Failed 500 ''error checking the email'', w')))"

subsection \<open>Fetching a stored report\<close>

text \<open>
  \<open>api_get_report\<close>: the check of the file name, then \<open>os.path.exists\<close>, then
  \<open>open\<close> and \<open>json.load\<close>; what the latter two raise ends in the handler for
  status 500.
\<close>

definition api_get_report :: "env \<Rightarrow> string \<Rightarrow> world \<Rightarrow> json api_response \<times> world" where
  "api_get_report env filename w =
     (if \<not> endswith filename ''.json'' \<or> CHR ''/'' \<in> set filename \<or> CHR 0x5C \<in> set filename
      then (Failed 400 ''invalid file name'', w)
      else
        (let filepath = path_join (reports_directory env) filename;
             w1 = emit (FsExists filepath) w
         in case files w filepath of
              None \<Rightarrow> (Failed 404 ''report not found'', w1)
            | Some (JsonFile report_data) \<Rightarrow> (Ok200 report_data, emit (FsRead filepath) w1)
            | Some other \<Rightarrow> (Failed 500 ''error fetching the report'', emit (FsRead filepath) w1)))"

section \<open>An example environment\<close>

text \<open>
  A concrete environment and state for the examples below. The stand-in for
  \<open>validators.email\<close> accepts one \<open>@\<close> between a local part of the characters RFC 5322
  allows in an atom (with dots) and a domain of letters, digits, hyphens and at least
  one dot. Every API key is set. The breach service answers 200 with four breaches,
  every other service answers 404, and every program runs and exits with 0. The state
  is the one after the reporter was constructed on an empty file system.
\<close>

definition atext :: "char \<Rightarrow> bool" where
  "atext c \<longleftrightarrow>
     (CHR ''a'' \<le> c \<and> c \<le> CHR ''z'') \<or> (CHR ''A'' \<le> c \<and> c \<le> CHR ''Z'') \<or>
     (CHR ''0'' \<le> c \<and> c \<le> CHR ''9'') \<or> c \<in> set ''!#$%&*+/=?^_{|}~-.'' \<or>
     c = CHR 0x27 \<or> c = CHR 0x60"

definition domain_char :: "char \<Rightarrow> bool" where
  "domain_char c \<longleftrightarrow>
     (CHR ''a'' \<le> c \<and> c \<le> CHR ''z'') \<or> (CHR ''A'' \<le> c \<and> c \<le> CHR ''Z'') \<or>
     (CHR ''0'' \<le> c \<and> c \<le> CHR ''9'') \<or> c = CHR ''-'' \<or> c = CHR ''.''"

definition simple_email :: "string \<Rightarrow> bool" where
  "simple_email s \<longleftrightarrow>
     (let local_part = takeWhile (\<lambda>c. c \<noteq> CHR ''@'') s;
          domain = drop 1 (dropWhile (\<lambda>c. c \<noteq> CHR ''@'') s)
      in local_part \<noteq> [] \<and> list_all atext local_part \<and>
         domain \<noteq> [] \<and> list_all domain_char domain \<and> CHR ''.'' \<in> set domain)"

definition example_breaches :: json where
  "example_breaches =
     JList [JObj [(''Name'', JStr ''Adobe''), (''BreachDate'', JStr ''2013-10-04'')],
            JObj [(''Name'', JStr ''LinkedIn''), (''BreachDate'', JStr ''2012-05-05'')],
            JObj [(''Name'', JStr ''Dropbox''), (''BreachDate'', JStr ''2012-07-01'')],
            JObj [(''Name'', JStr ''Canva''), (''BreachDate'', JStr ''2019-05-24'')]]"

definition example_http :: "request \<Rightarrow> exn + response" where
  "example_http req =
     (if take 27 (url req) = ''https://haveibeenpwned.com/''
      then Inr \<lparr>status_code = 200, resp_text = ''[...]'', resp_json = Inr example_breaches\<rparr>
      else Inr \<lparr>status_code = 404, resp_text = ''Not Found'',
                resp_json = Inl (Error ''Expecting value'')\<rparr>)"

definition example_env :: env where
  "example_env =
     \<lparr>email_syntax = simple_email,
      environ = map_of [(''HIBP_API_KEY'', ''key1''), (''HUNTER_API_KEY'', ''key2''),
                        (''LEAKCHECK_API_KEY'', ''key3''), (''CLEARBIT_API_KEY'', ''key4'')],
      http_get = example_http,
      run_process = (\<lambda>argv limit. Inr \<lparr>returncode = 0, stdout = ''ok'', stderr = []\<rparr>),
      py_repr = (\<lambda>x. ''...''),
      now = \<lparr>year = 2024, month = 1, day = 2, hour = 3, minute = 4, second = 5, microsecond = 0\<rparr>,
      reports_directory = ''./reports''\<rparr>"

definition example_world :: world where
  "example_world = snd (makedirs ''./reports'' \<lparr>files = Map.empty, trace = []\<rparr>)"

text \<open>
  Two reports: the one \<open>generate_report\<close> builds for an email address and an empty
  outcome map, and the same for a target with a backslash in it, which a search with
  the target type given by the caller takes as it is.
\<close>

definition example_report :: report where
  "example_report =
     \<lparr>target = ''user@example.com'', timestamp = ''2024-01-02T03:04:05'',
      summary = generate_summary [], detailed_results = [],
      metadata = \<lparr>total_sources = 0, successful_sources = 0, failed_sources = 0\<rparr>\<rparr>"

definition backslash_report :: report where
  "backslash_report = example_report\<lparr>target := [CHR ''a'', CHR 0x5C, CHR ''b'']\<rparr>"

text \<open>The example state after the example report was saved under the name \<open>stored.json\<close>.\<close>

definition stored_world :: world where
  "stored_world =
     snd (save_report osint_reports_dir example_env example_report (Some ''stored.json'') example_world)"

section \<open>Properties of \<open>sanitize_input\<close>\<close>

lemma username_char_LF: "\<not> username_char LF"
  by (simp add: username_char_def LF_def)

lemma remove_chars_filter: "remove_chars cs s = filter (\<lambda>x. x \<notin> set cs) s"
  by (induction cs arbitrary: s) (auto simp: remove_char_def intro: filter_cong)

lemma py_strip_Nil: "py_strip [] = []"
  by (simp add: py_strip_def)

lemma set_py_strip: "set (py_strip s) \<subseteq> set s"
proof -
  have "set (dropWhile py_isspace (rev (dropWhile py_isspace s))) \<subseteq> set (rev (dropWhile py_isspace s))"
    by (rule set_dropWhileD [THEN subsetI])
  also have "\<dots> \<subseteq> set s"
    using set_dropWhileD [of _ py_isspace s] by auto
  finally show ?thesis by (simp add: py_strip_def)
qed

lemma py_strip_trailing: "dropWhile py_isspace (rev (py_strip s)) = rev (py_strip s)"
  by (simp add: py_strip_def)

lemma py_strip_leading: "dropWhile py_isspace (py_strip s) = py_strip s"
proof -
  define u where "u = dropWhile py_isspace s"
  define v where "v = dropWhile py_isspace (rev u)"
  have strip: "py_strip s = rev v"
    by (simp add: py_strip_def u_def v_def)
  show ?thesis
  proof (cases "u = []")
    case True
    then show ?thesis by (simp add: strip v_def)
  next
    case False
    then have hd_u: "\<not> py_isspace (hd u)"
      unfolding u_def by (rule hd_dropWhile)
    have "rev u = takeWhile py_isspace (rev u) @ v"
      by (simp add: v_def)
    then have u_eq: "u = rev v @ rev (takeWhile py_isspace (rev u))"
      by (metis rev_append rev_rev_ident)
    have "v \<noteq> []"
    proof
      assume "v = []"
      then have "\<forall>x \<in> set (rev u). py_isspace x"
        unfolding v_def by simp
      with False hd_u show False
        by (metis hd_in_set set_rev)
    qed
    then have "hd (rev v) = hd u"
      using u_eq by (metis hd_append2 rev_is_Nil_conv)
    with hd_u \<open>v \<noteq> []\<close> have "dropWhile py_isspace (rev v) = rev v"
      by (cases "rev v") auto
    then show ?thesis by (simp add: strip)
  qed
qed

lemma py_strip_idem: "py_strip (py_strip s) = py_strip s"
proof -
  have "py_strip (py_strip s) = rev (dropWhile py_isspace (rev (py_strip s)))"
    by (simp add: py_strip_def [of "py_strip s"] py_strip_leading)
  then show ?thesis by (simp add: py_strip_trailing)
qed

text \<open>
  Stripping after removing is idempotent whatever the list of removed characters is.
\<close>

lemma strip_remove_chars_idem:
  "py_strip (remove_chars cs (py_strip (remove_chars cs s))) = py_strip (remove_chars cs s)"
proof -
  let ?t = "py_strip (remove_chars cs s)"
  have "set ?t \<subseteq> set (remove_chars cs s)"
    by (rule set_py_strip)
  then have "set ?t \<inter> set cs = {}"
    by (auto simp: remove_chars_filter)
  then have "remove_chars cs ?t = ?t"
    by (auto simp: remove_chars_filter filter_id_conv)
  then show ?thesis by (simp add: py_strip_idem)
qed

lemma sanitize_input_clean: "set (sanitize_input s) \<inter> set dangerous_chars = {}"
proof -
  have "set (py_strip (remove_chars dangerous_chars s)) \<subseteq> set (remove_chars dangerous_chars s)"
    by (rule set_py_strip)
  then show ?thesis
    by (auto simp: sanitize_input_def remove_chars_filter)
qed

lemma remove_chars_clean: "set s \<inter> set cs = {} \<Longrightarrow> remove_chars cs s = s"
  by (auto simp: remove_chars_filter filter_id_conv)

text \<open>
  Claim C10: \<open>sanitize_input\<close> is idempotent, its result holds no character of the
  deny list (less-than, greater-than, double quote, single quote, ampersand, bar,
  semicolon, line feed, backtick), and the result neither starts nor ends with
  whitespace: the run of whitespace at its front and the one at its back are empty.
\<close>

theorem sanitize_input_idempotent:
  "sanitize_input (sanitize_input s) = sanitize_input s \<and>
   set (sanitize_input s) \<inter>
     {CHR ''<'', CHR ''>'', CHR 0x22, CHR 0x27, CHR ''&'', CHR ''|'', CHR '';'', CHR 0x0A, CHR 0x60} = {} \<and>
   takeWhile py_isspace (sanitize_input s) = [] \<and>
   takeWhile py_isspace (rev (sanitize_input s)) = []"
proof -
  let ?t = "sanitize_input s"
  have clean: "set ?t \<inter> set dangerous_chars = {}"
    by (rule sanitize_input_clean)
  have lead: "dropWhile py_isspace ?t = ?t"
    by (simp add: sanitize_input_def py_strip_leading)
  have trail: "dropWhile py_isspace (rev ?t) = rev ?t"
    by (simp add: sanitize_input_def py_strip_trailing)
  have "py_strip ?t = ?t"
    by (simp add: sanitize_input_def py_strip_idem py_strip_Nil)
  then have idem: "sanitize_input ?t = ?t"
    using remove_chars_clean [OF clean] by (simp add: sanitize_input_def [of ?t])
  have tw: "takeWhile py_isspace xs = []" if "dropWhile py_isspace xs = xs" for xs
    using that takeWhile_dropWhile_id [of py_isspace xs] by (metis self_append_conv2)
  from clean have "set ?t \<inter>
     {CHR ''<'', CHR ''>'', CHR 0x22, CHR 0x27, CHR ''&'', CHR ''|'', CHR '';'', CHR 0x0A, CHR 0x60} = {}"
    by (simp add: dangerous_chars_def dangerous_char_8_def LF_def)
  with idem tw [OF lead] tw [OF trail] show ?thesis by blast
qed

section \<open>Properties of \<open>validate_username\<close>\<close>

lemma re_match_username_all:
  assumes "s \<noteq> []" "list_all username_char s"
  shows "re_match_username s"
proof -
  from assms(2) have run: "takeWhile username_char s = s"
    and rest: "dropWhile username_char s = []"
    by (simp_all add: list_all_iff)
  show ?thesis
    unfolding re_match_username_def Let_def run rest using assms(1) by simp
qed

lemma re_match_username_iff:
  "re_match_username s \<longleftrightarrow>
     s \<noteq> [] \<and> (list_all username_char s \<or>
       (\<exists>t. t \<noteq> [] \<and> list_all username_char t \<and> s = t @ [LF]))"
proof
  assume m: "re_match_username s"
  define run where "run = takeWhile username_char s"
  define rest where "rest = dropWhile username_char s"
  have s: "s = run @ rest" by (simp add: run_def rest_def)
  have run: "list_all username_char run"
    by (simp add: run_def list_all_iff) (meson set_takeWhileD)
  from m have "run \<noteq> []" "rest = [] \<or> rest = [LF]"
    by (simp_all add: re_match_username_def run_def rest_def Let_def)
  with s run show "s \<noteq> [] \<and> (list_all username_char s \<or>
       (\<exists>t. t \<noteq> [] \<and> list_all username_char t \<and> s = t @ [LF]))"
    by auto
next
  assume r: "s \<noteq> [] \<and> (list_all username_char s \<or>
       (\<exists>t. t \<noteq> [] \<and> list_all username_char t \<and> s = t @ [LF]))"
  then consider "list_all username_char s" "s \<noteq> []"
    | t where "t \<noteq> []" "list_all username_char t" "s = t @ [LF]"
    by blast
  then show "re_match_username s"
  proof cases
    case 1
    then show ?thesis by (simp add: re_match_username_all)
  next
    case 2
    then have run: "takeWhile username_char s = t"
      and rest: "dropWhile username_char s = [LF]"
      by (simp_all add: list_all_iff username_char_LF)
    show ?thesis
      unfolding re_match_username_def Let_def run rest using 2(1) by simp
  qed
qed

text \<open>
  What \<open>validate_username\<close> accepts: the strings of at least three characters that are
  made of class characters, with or without one line feed after them.
\<close>

lemma validate_username_iff:
  "validate_username s \<longleftrightarrow>
     3 \<le> length s \<and> (list_all username_char s \<or>
       (\<exists>t. t \<noteq> [] \<and> list_all username_char t \<and> s = t @ [LF]))"
  by (auto simp: validate_username_def re_match_username_iff)

lemma validate_username_no_final_LF:
  assumes "s = [] \<or> last s \<noteq> LF"
  shows "validate_username s \<longleftrightarrow> 3 \<le> length s \<and> list_all username_char s"
  using assms by (auto simp: validate_username_iff)

text \<open>
  Claim C7 says that \<open>validate_username\<close> is true iff the string has at least three
  characters and each is in the class. At the four-character string \<open>abc\<close> followed by
  a line feed the code answers true, although the line feed is not in the class: the
  end anchor of the pattern also matches before a final line feed.
\<close>

theorem validate_username_trailing_newline:
  "validate_username (''abc'' @ [LF]) \<and> \<not> list_all username_char (''abc'' @ [LF])"
  by (simp add: validate_username_def re_match_username_def username_char_def LF_def)


text \<open>
  The same string passes under the two other readings of the broken pattern line.
\<close>

lemma trailing_newline_other_readings:
  "re_match_username_unanchored (''abc'' @ [LF])"
  "re_match_username_linefeed (''abc'' @ [LF])"
  by (simp_all add: re_match_username_unanchored_def re_match_username_linefeed_def
        username_char_def LF_def)


section \<open>Properties of the reporter\<close>

lemma filter_exn_Inr_I:
  "list_all (\<lambda>x. p x = Inr True \<or> p x = Inr False) xs \<Longrightarrow>
     filter_exn p xs = Inr (filter (\<lambda>x. p x = Inr True) xs)"
  by (induction xs) auto

lemma filter_exn_Inr_D:
  "filter_exn p xs = Inr ys \<Longrightarrow>
     list_all (\<lambda>x. p x = Inr True \<or> p x = Inr False) xs \<and> ys = filter (\<lambda>x. p x = Inr True) xs"
proof (induction xs arbitrary: ys)
  case Nil
  then show ?case by simp
next
  case (Cons x xs)
  from Cons.prems obtain b zs where b: "p x = Inr b" and zs: "filter_exn p xs = Inr zs"
    and ys: "ys = (if b then x # zs else zs)"
    by (auto split: sum.splits)
  from Cons.IH [OF zs] b ys show ?case by (cases b) simp_all
qed

lemma filter_exn_Inr:
  "filter_exn p xs = Inr ys \<longleftrightarrow>
     list_all (\<lambda>x. p x = Inr True \<or> p x = Inr False) xs \<and> ys = filter (\<lambda>x. p x = Inr True) xs"
  using filter_exn_Inr_D [of p xs ys] filter_exn_Inr_I [of p xs] by blast

lemma str_not_in_Inr:
  "str_not_in k r = Inr b \<longleftrightarrow> str_in k r = Inr (\<not> b)"
  by (cases "str_in k r") (auto simp: str_not_in_def)

lemma str_in_dict: "is_dict r \<Longrightarrow> str_in k r = Inr True \<or> str_in k r = Inr False"
  by (cases r) auto

lemma length_filter_split:
  assumes "list_all (\<lambda>x. p x = Inr True \<or> p x = Inr False) xs"
  shows "length (filter (\<lambda>x. p x = Inr False) xs) + length (filter (\<lambda>x. p x = Inr True) xs)
           = length xs"
  using assms by (induction xs) auto

lemma generate_report_Inr:
  assumes "generate_report env tgt results = Inr rep"
  shows "list_all (\<lambda>r. str_in ''error'' r = Inr True \<or> str_in ''error'' r = Inr False) (map snd results)"
    and "metadata rep =
           \<lparr>total_sources = length results,
            successful_sources = length (filter (\<lambda>r. str_in ''error'' r = Inr False) (map snd results)),
            failed_sources = length (filter (\<lambda>r. str_in ''error'' r = Inr True) (map snd results))\<rparr>"
proof -
  let ?vs = "map snd results"
  from assms obtain successful failed where
    s: "filter_exn (str_not_in ''error'') ?vs = Inr successful" and
    f: "filter_exn (str_in ''error'') ?vs = Inr failed" and
    m: "metadata rep = \<lparr>total_sources = length results,
                         successful_sources = length successful,
                         failed_sources = length failed\<rparr>"
    by (auto simp: generate_report_def split: sum.splits)
  from f show "list_all (\<lambda>r. str_in ''error'' r = Inr True \<or> str_in ''error'' r = Inr False) ?vs"
    by (simp add: filter_exn_Inr)
  from s have "successful = filter (\<lambda>r. str_in ''error'' r = Inr False) ?vs"
    by (simp add: filter_exn_Inr str_not_in_Inr)
  moreover from f have "failed = filter (\<lambda>r. str_in ''error'' r = Inr True) ?vs"
    by (simp add: filter_exn_Inr)
  ultimately show "metadata rep =
           \<lparr>total_sources = length results,
            successful_sources = length (filter (\<lambda>r. str_in ''error'' r = Inr False) ?vs),
            failed_sources = length (filter (\<lambda>r. str_in ''error'' r = Inr True) ?vs)\<rparr>"
    using m by simp
qed

lemma generate_report_total:
  assumes "list_all is_dict (map snd results)"
  shows "\<exists>rep. generate_report env tgt results = Inr rep"
proof -
  let ?vs = "map snd results"
  from assms have ok: "list_all (\<lambda>r. str_in ''error'' r = Inr True \<or> str_in ''error'' r = Inr False) ?vs"
    by (auto simp: list_all_iff dest: str_in_dict)
  then have ok': "list_all (\<lambda>r. str_not_in ''error'' r = Inr True \<or> str_not_in ''error'' r = Inr False) ?vs"
    by (auto simp: list_all_iff str_not_in_Inr)
  obtain failed where f: "filter_exn (str_in ''error'') ?vs = Inr failed"
    using ok by (simp add: filter_exn_Inr)
  obtain successful where s: "filter_exn (str_not_in ''error'') ?vs = Inr successful"
    using ok' by (simp add: filter_exn_Inr)
  show ?thesis by (simp add: generate_report_def s f)
qed

text \<open>
  Claim C9: in every report \<open>generate_report\<close> builds, \<open>total_sources\<close> is the number
  of entries of the outcome map, \<open>failed_sources\<close> counts the outcomes that contain
  \<open>error\<close>, \<open>successful_sources\<close> the others, and the two add up to the total. A
  report is built whenever every outcome is a dictionary, the type the adapters
  return; \<open>error\<close> is then a key of the outcome.
\<close>

theorem generate_report_counts:
  "(generate_report env tgt results = Inr rep \<longrightarrow>
      total_sources (metadata rep) = length results \<and>
      successful_sources (metadata rep) + failed_sources (metadata rep) = total_sources (metadata rep) \<and>
      failed_sources (metadata rep) =
        length (filter (\<lambda>r. str_in ''error'' r = Inr True) (map snd results)) \<and>
      successful_sources (metadata rep) =
        length (filter (\<lambda>r. str_in ''error'' r = Inr False) (map snd results))) \<and>
   (list_all is_dict (map snd results) \<longrightarrow> (\<exists>rep'. generate_report env tgt results = Inr rep'))"
proof (intro conjI impI)
  assume r: "generate_report env tgt results = Inr rep"
  note m = generate_report_Inr(2) [OF r]
  show "total_sources (metadata rep) = length results" by (simp add: m)
  show "successful_sources (metadata rep) + failed_sources (metadata rep) = total_sources (metadata rep)"
    using length_filter_split [OF generate_report_Inr(1) [OF r]] by (simp add: m)
  show "failed_sources (metadata rep) =
        length (filter (\<lambda>r. str_in ''error'' r = Inr True) (map snd results))"
    by (simp add: m)
  show "successful_sources (metadata rep) =
        length (filter (\<lambda>r. str_in ''error'' r = Inr False) (map snd results))"
    by (simp add: m)
next
  assume "list_all is_dict (map snd results)"
  then show "\<exists>rep'. generate_report env tgt results = Inr rep'"
    by (rule generate_report_total)
qed

theorem generate_report_counts_witness:
  "\<exists>rep. generate_report example_env ''user@example.com''
            [(''haveibeenpwned'', error_outcome ''connection timed out''),
             (''emailrep'', not_found_outcome)] = Inr rep \<and>
         total_sources (metadata rep) = 2 \<and>
         successful_sources (metadata rep) = 1 \<and>
         failed_sources (metadata rep) = 1"
proof -
  let ?results = "[(''haveibeenpwned'', error_outcome ''connection timed out''),
                   (''emailrep'', not_found_outcome)]"
  have dicts: "list_all is_dict (map snd ?results)"
    by (simp add: error_outcome_def not_found_outcome_def)
  with generate_report_counts [of example_env "''user@example.com''" ?results]
  obtain rep where rep: "generate_report example_env ''user@example.com'' ?results = Inr rep"
    by blast
  with generate_report_counts [of example_env "''user@example.com''" ?results rep]
  have "total_sources (metadata rep) = 2 \<and> successful_sources (metadata rep) = 1 \<and>
        failed_sources (metadata rep) = 1"
    by (simp add: error_outcome_def not_found_outcome_def)
  with rep show ?thesis by blast
qed

subsection \<open>The summary\<close>

text \<open>
  On an outcome map whose breach-check entry is a list, the summary is the heuristic of
  the specification: breaches found iff the list is not empty, and the risk is high
  above three entries, medium from one to three, low for none.
\<close>

lemma generate_summary_list:
  assumes "map_of results ''haveibeenpwned'' = Some (JList breaches)"
  shows "breaches_found (generate_summary results) = (breaches \<noteq> [])"
    and "risk_level (generate_summary results) =
           (if length breaches > 3 then ''high'' else if breaches \<noteq> [] then ''medium'' else ''low'')"
  using assms by (auto simp: generate_summary_def Let_def)

text \<open>On every other outcome map the summary is the default one.\<close>

lemma generate_summary_default:
  assumes "\<And>breaches. map_of results ''haveibeenpwned'' \<noteq> Some (JList breaches)"
  shows "generate_summary results =
           \<lparr>risk_level = ''low'', breaches_found = False, social_accounts = 0,
            email_reputation = ''unknown''\<rparr>"
  using assms by (auto simp: generate_summary_def Let_def split: option.splits json.splits)

text \<open>
  The breach check never returns a list: its outcome is a dictionary, which holds the
  list under \<open>breaches\<close> when breaches were found. So the summary of what the adapter
  returns is always the default one.
\<close>

lemma haveibeenpwned_is_dict: "is_dict (fst (haveibeenpwned env email w))"
  by (auto simp: haveibeenpwned_def hibp_handler_def hibp_found_def error_outcome_def
        bind_exn_def Let_def
      split: option.splits sum.splits exn.splits prod.splits)

lemma generate_summary_of_haveibeenpwned:
  "generate_summary [(''haveibeenpwned'', fst (haveibeenpwned env email w))] =
     \<lparr>risk_level = ''low'', breaches_found = False, social_accounts = 0,
      email_reputation = ''unknown''\<rparr>"
proof (rule generate_summary_default)
  fix breaches
  from haveibeenpwned_is_dict [of env email w]
  show "map_of [(''haveibeenpwned'', fst (haveibeenpwned env email w))] ''haveibeenpwned''
          \<noteq> Some (JList breaches)"
    by auto
qed

text \<open>
  Claim C1 says that the summary reports breaches, and a high risk above three of them,
  whenever the breach check succeeded with a non-empty list. In the example
  environment the breach service answers with four breaches: the adapter returns them
  in its dictionary, and the summary of that outcome is low risk, no breaches found.
\<close>

theorem summary_misses_breaches:
  "fst (haveibeenpwned example_env ''user@example.com'' example_world) =
     JObj [(''status'', JStr ''found''), (''breach_count'', JInt 4),
           (''breaches'', example_breaches), (''last_breach'', JStr ''Canva'')] \<and>
   generate_summary
     [(''haveibeenpwned'', fst (haveibeenpwned example_env ''user@example.com'' example_world))] =
     \<lparr>risk_level = ''low'', breaches_found = False, social_accounts = 0,
      email_reputation = ''unknown''\<rparr>"
proof
  show "fst (haveibeenpwned example_env ''user@example.com'' example_world) =
     JObj [(''status'', JStr ''found''), (''breach_count'', JInt 4),
           (''breaches'', example_breaches), (''last_breach'', JStr ''Canva'')]"
    by code_simp
  then show "generate_summary
     [(''haveibeenpwned'', fst (haveibeenpwned example_env ''user@example.com'' example_world))] =
     \<lparr>risk_level = ''low'', breaches_found = False, social_accounts = 0,
      email_reputation = ''unknown''\<rparr>"
    by (simp add: generate_summary_def)
qed


section \<open>Properties of the source adapters\<close>

lemma str_int_404: "str_int 404 = ''404''"
  by (simp add: str_int_def str_nat.simps digit_def)

subsection \<open>The status 404\<close>

text \<open>
  A remote service that answers every request with status 404, an email that passes
  the check, and the API key set: the breach check, the reputation check and the
  enrichment adapter return an outcome without \<open>error\<close>; the verifier and the leak check
  return the failure \<open>API error: 404\<close>.
\<close>

lemma haveibeenpwned_404:
  assumes "validate_email env email" "api_key env ''HIBP_API_KEY'' = Some key"
    and "\<And>req. http_get env req = Inr resp" "status_code resp = 404"
  shows "fst (haveibeenpwned env email w) =
           JObj [(''status'', JStr ''clean''), (''breach_count'', JInt 0),
                 (''message'', JStr ''no breaches found'')]"
  using assms by (simp add: haveibeenpwned_def session_get_def Let_def)

lemma emailrep_404:
  assumes "validate_email env email"
    and "\<And>req. http_get env req = Inr resp" "status_code resp = 404"
  shows "fst (emailrep env email w) = not_found_outcome"
  using assms by (simp add: emailrep_def session_get_def Let_def)

lemma clearbit_404:
  assumes "validate_email env email" "api_key env ''CLEARBIT_API_KEY'' = Some key"
    and "\<And>req. http_get env req = Inr resp" "status_code resp = 404"
  shows "fst (clearbit env email w) = not_found_outcome"
  using assms by (simp add: clearbit_def session_get_def Let_def)

lemma hunterio_404:
  assumes "validate_email env email" "api_key env ''HUNTER_API_KEY'' = Some key"
    and "\<And>req. http_get env req = Inr resp" "status_code resp = 404"
  shows "fst (hunterio env email w) = error_outcome ''API error: 404''"
  using assms by (simp add: hunterio_def session_get_def Let_def str_int_404)

lemma leakcheck_404:
  assumes "validate_email env email" "api_key env ''LEAKCHECK_API_KEY'' = Some key"
    and "\<And>req. http_get env req = Inr resp" "status_code resp = 404"
  shows "fst (leakcheck env email w) = error_outcome ''API error: 404''"
  using assms by (simp add: leakcheck_def session_get_def Let_def str_int_404)

text \<open>
  Claim C2 says that each of the five HTTP adapters answers a status 404 with a success
  outcome that has no \<open>error\<close> field. In the example environment the verifier and the
  leak check receive the status 404 for a valid email with their keys set, and both
  return a failure outcome; the reputation check, in the same situation, returns the
  not-found outcome.
\<close>

theorem hunterio_leakcheck_fail_on_404:
  "fst (hunterio example_env ''user@example.com'' example_world) =
     JObj [(''error'', JStr ''API error: 404'')] \<and>
   fst (leakcheck example_env ''user@example.com'' example_world) =
     JObj [(''error'', JStr ''API error: 404'')] \<and>
   fst (emailrep example_env ''user@example.com'' example_world) =
     JObj [(''status'', JStr ''not_found''), (''message'', JStr ''no information found'')]"
  by code_simp

subsection \<open>The arguments of the external programs\<close>

lemma safe_subprocess_call_trace:
  assumes "run_process env [cmd0, ''--version''] None = Inr probe" "returncode probe = 0"
  shows "trace (snd (safe_subprocess_call env (ArgList (cmd0 # args)) limit w)) =
           trace w @ [Run [cmd0, ''--version''] None, Run (cmd0 # args) (Some limit)]"
  using assms by (simp add: safe_subprocess_call_def command_exists_def emit_def)

text \<open>
  When the program is installed, \<open>sherlock\<close> and \<open>maigret\<close> hand the sanitized user
  name to it, and \<open>socialscan\<close> and \<open>holehe\<close> hand over the email as they received it.
\<close>

lemma sherlock_argv:
  assumes "validate_username username"
    and "run_process env [''sherlock'', ''--version''] None = Inr probe" "returncode probe = 0"
  shows "trace (snd (sherlock env username w)) =
           trace w @ [Run [''sherlock'', ''--version''] None,
                      Run [''sherlock'', sanitize_input username, ''--print-found''] (Some 180)]"
  using assms by (simp add: sherlock_def safe_subprocess_call_trace)

lemma maigret_argv:
  assumes "validate_username username"
    and "run_process env [''maigret'', ''--version''] None = Inr probe" "returncode probe = 0"
  shows "trace (snd (maigret env username w)) =
           trace w @ [Run [''maigret'', ''--version''] None,
                      Run [''maigret'', sanitize_input username, ''--print-found''] (Some 180)]"
  using assms by (simp add: maigret_def safe_subprocess_call_trace)

lemma socialscan_argv:
  assumes "validate_email env email"
    and "run_process env [''socialscan'', ''--version''] None = Inr probe" "returncode probe = 0"
  shows "trace (snd (socialscan env email w)) =
           trace w @ [Run [''socialscan'', ''--version''] None,
                      Run [''socialscan'', email] (Some 120)]"
  using assms by (simp add: socialscan_def safe_subprocess_call_trace)

lemma holehe_argv:
  assumes "validate_email env email"
    and "run_process env [''holehe'', ''--version''] None = Inr probe" "returncode probe = 0"
  shows "trace (snd (holehe env email w)) =
           trace w @ [Run [''holehe'', ''--version''] None,
                      Run [''holehe'', email] (Some 120)]"
  using assms by (simp add: holehe_def safe_subprocess_call_trace)

text \<open>
  Claim C3 says that each of the four process adapters hands \<open>sanitize(target)\<close> to
  the program. The address \<open>o'brien@example.com\<close> passes the email check of the
  example environment; \<open>socialscan\<close> and \<open>holehe\<close> run their program on the address
  with its quote, while sanitizing it would give \<open>obrien@example.com\<close>.
\<close>

theorem socialscan_holehe_unsanitized:
  "validate_email example_env ''o'brien@example.com'' \<and>
   trace (snd (socialscan example_env ''o'brien@example.com'' example_world)) =
     [Run [''socialscan'', ''--version''] None,
      Run [''socialscan'', ''o'brien@example.com''] (Some 120)] \<and>
   trace (snd (holehe example_env ''o'brien@example.com'' example_world)) =
     [Run [''holehe'', ''--version''] None,
      Run [''holehe'', ''o'brien@example.com''] (Some 120)] \<and>
   sanitize_input ''o'brien@example.com'' = ''obrien@example.com''"
  by code_simp


section \<open>Properties of the comprehensive search\<close>

lemma classify_auto_None:
  "classify env tgt ''auto'' = None \<longleftrightarrow> \<not> validate_email env tgt \<and> \<not> validate_username tgt"
  by (simp add: classify_def)

text \<open>
  A target that both checks of the code refuse, searched with automatic
  classification, gives the classification error, and the state is the one before the
  call: no request was sent, no program was run, no file was written.
\<close>

lemma comprehensive_search_unsupported:
  assumes "\<not> validate_email env tgt" "\<not> validate_username tgt"
  shows "comprehensive_search env tgt ''auto'' w = (SearchError ''unsupported target type'', w)"
  using assms by (simp add: comprehensive_search_def classify_def)

text \<open>
  The same for a target that is no valid user name in the sense of the specification
  (at least three characters, each in the class), as long as it does not end in a line
  feed; the two-character target \<open>ab\<close> is an example.
\<close>

lemma comprehensive_search_unsupported_no_final_LF:
  assumes "\<not> validate_email env tgt"
    and "\<not> (3 \<le> length tgt \<and> list_all username_char tgt)"
    and "tgt = [] \<or> last tgt \<noteq> LF"
  shows "comprehensive_search env tgt ''auto'' w = (SearchError ''unsupported target type'', w)"
proof -
  from assms(2,3) have "\<not> validate_username tgt"
    by (simp add: validate_username_no_final_LF)
  with assms(1) show ?thesis by (rule comprehensive_search_unsupported)
qed

lemma comprehensive_search_unsupported_ab:
  "comprehensive_search example_env ''ab'' ''auto'' example_world =
     (SearchError ''unsupported target type'', example_world)"
proof -
  have "\<not> validate_email example_env ''ab''"
    by (simp add: validate_email_def example_env_def simple_email_def)
  moreover have "\<not> (3 \<le> length ''ab'' \<and> list_all username_char ''ab'')"
    by simp
  moreover have "''ab'' = [] \<or> last ''ab'' \<noteq> LF"
    by (simp add: LF_def)
  ultimately show ?thesis by (rule comprehensive_search_unsupported_no_final_LF)
qed

text \<open>
  Claim C4 says that every target that is neither a valid email nor a valid user name
  gets the classification error from a search with automatic classification, with no
  adapter invoked and no report built or saved. The target \<open>abc\<close> followed by a line
  feed is no valid email and no valid user name, its last character being outside the
  class; the code takes it for a user name, runs \<open>sherlock\<close> and \<open>maigret\<close>, builds
  the report and writes it to a file.
\<close>

theorem comprehensive_search_trailing_newline:
  "\<not> validate_email example_env (''abc'' @ [LF]) \<and>
   \<not> list_all username_char (''abc'' @ [LF]) \<and>
   (\<exists>d. fst (comprehensive_search example_env (''abc'' @ [LF]) ''auto'' example_world) = SearchDone d \<and>
        target_type d = ''username'' \<and>
        map fst (search_results d) = [''sherlock'', ''maigret''] \<and>
        report_saved_to d = ''./reports/osint_report_abc'' @ [LF] @ ''_20240102_030405.json'') \<and>
   trace (snd (comprehensive_search example_env (''abc'' @ [LF]) ''auto'' example_world)) =
     [Run [''sherlock'', ''--version''] None,
      Run [''sherlock'', ''abc'', ''--print-found''] (Some 180),
      Run [''maigret'', ''--version''] None,
      Run [''maigret'', ''abc'', ''--print-found''] (Some 180),
      FsWrite (''./reports/osint_report_abc'' @ [LF] @ ''_20240102_030405.json'')]"
proof (intro conjI)
  show "\<not> validate_email example_env (''abc'' @ [LF])"
    by code_simp
  show "\<not> list_all username_char (''abc'' @ [LF])"
    by (simp add: username_char_def LF_def)
  have "fst (comprehensive_search example_env (''abc'' @ [LF]) ''auto'' example_world) =
    SearchDone
     \<lparr>search_target = ''abc'' @ [LF], target_type = ''username'',
      search_results =
        [(''sherlock'', JObj [(''output'', JStr ''ok''), (''status'', JStr ''success'')]),
         (''maigret'', JObj [(''output'', JStr ''ok''), (''status'', JStr ''success'')])],
      search_report =
        \<lparr>target = ''abc'' @ [LF], timestamp = ''2024-01-02T03:04:05'',
         summary = \<lparr>risk_level = ''low'', breaches_found = False, social_accounts = 0,
                    email_reputation = ''unknown''\<rparr>,
         detailed_results =
           [(''sherlock'', JObj [(''output'', JStr ''ok''), (''status'', JStr ''success'')]),
            (''maigret'', JObj [(''output'', JStr ''ok''), (''status'', JStr ''success'')])],
         metadata = \<lparr>total_sources = 2, successful_sources = 2, failed_sources = 0\<rparr>\<rparr>,
      report_saved_to = ''./reports/osint_report_abc'' @ [LF] @ ''_20240102_030405.json'',
      search_timestamp = ''2024-01-02T03:04:05''\<rparr>"
    by code_simp
  then show "\<exists>d. fst (comprehensive_search example_env (''abc'' @ [LF]) ''auto'' example_world) = SearchDone d \<and>
        target_type d = ''username'' \<and>
        map fst (search_results d) = [''sherlock'', ''maigret''] \<and>
        report_saved_to d = ''./reports/osint_report_abc'' @ [LF] @ ''_20240102_030405.json''"
    by simp
  show "trace (snd (comprehensive_search example_env (''abc'' @ [LF]) ''auto'' example_world)) =
     [Run [''sherlock'', ''--version''] None,
      Run [''sherlock'', ''abc'', ''--print-found''] (Some 180),
      Run [''maigret'', ''--version''] None,
      Run [''maigret'', ''abc'', ''--print-found''] (Some 180),
      FsWrite (''./reports/osint_report_abc'' @ [LF] @ ''_20240102_030405.json'')]"
    by code_simp
qed


section \<open>Properties of the routes\<close>

subsection \<open>Fetching a stored report\<close>

lemma api_get_report_rejected:
  assumes "CHR ''/'' \<in> set filename \<or> CHR 0x5C \<in> set filename \<or> \<not> endswith filename ''.json''"
  shows "api_get_report env filename w = (Failed 400 ''invalid file name'', w)"
  using assms by (auto simp: api_get_report_def)

lemma api_get_report_accepted:
  assumes "CHR ''/'' \<notin> set filename" "CHR 0x5C \<notin> set filename" "endswith filename ''.json''"
  shows "fst (api_get_report env filename w) =
           (case files w (path_join (reports_directory env) filename) of
              None \<Rightarrow> Failed 404 ''report not found''
            | Some (JsonFile doc) \<Rightarrow> Ok200 doc
            | Some other \<Rightarrow> Failed 500 ''error fetching the report'')"
  using assms by (auto simp: api_get_report_def Let_def split: option.splits fsnode.splits)

text \<open>
  Claim C6: \<open>api_get_report\<close> answers with the validation error (status 400) iff the
  file name contains a slash or a backslash or does not end in \<open>.json\<close>, and then the
  state is untouched: nothing was asked of the file system. For a file name that
  passes the check, it answers not found (status 404) iff no file is at the path, and
  it answers with the stored document when the file at the path holds one.
\<close>

theorem api_get_report_cases:
  "(fst (api_get_report env filename w) = Failed 400 ''invalid file name'' \<longleftrightarrow>
      CHR ''/'' \<in> set filename \<or> CHR 0x5C \<in> set filename \<or> \<not> endswith filename ''.json'') \<and>
   (CHR ''/'' \<in> set filename \<or> CHR 0x5C \<in> set filename \<or> \<not> endswith filename ''.json'' \<longrightarrow>
      snd (api_get_report env filename w) = w) \<and>
   (\<not> (CHR ''/'' \<in> set filename \<or> CHR 0x5C \<in> set filename \<or> \<not> endswith filename ''.json'') \<longrightarrow>
      (fst (api_get_report env filename w) = Failed 404 ''report not found'' \<longleftrightarrow>
         files w (path_join (reports_directory env) filename) = None) \<and>
      (\<forall>doc. files w (path_join (reports_directory env) filename) = Some (JsonFile doc) \<longrightarrow>
         fst (api_get_report env filename w) = Ok200 doc))"
  by (auto simp: api_get_report_def Let_def split: option.splits fsnode.splits)

text \<open>
  A path that exists without holding a JSON document (a directory, a file
  \<open>json.load\<close> fails on) ends in the handler for status 500.
\<close>

lemma api_get_report_unreadable:
  assumes "\<not> (CHR ''/'' \<in> set filename \<or> CHR 0x5C \<in> set filename \<or> \<not> endswith filename ''.json'')"
    and "files w (path_join (reports_directory env) filename) = Some node"
    and "\<And>doc. node \<noteq> JsonFile doc"
  shows "fst (api_get_report env filename w) = Failed 500 ''error fetching the report''"
  using assms by (auto simp: api_get_report_def Let_def split: option.splits fsnode.splits)


theorem api_get_report_cases_witness:
  "fst (api_get_report example_env ''../secret.json'' stored_world) = Failed 400 ''invalid file name'' \<and>
   snd (api_get_report example_env ''../secret.json'' stored_world) = stored_world \<and>
   fst (api_get_report example_env ''x.txt'' stored_world) = Failed 400 ''invalid file name'' \<and>
   snd (api_get_report example_env ''x.txt'' stored_world) = stored_world \<and>
   fst (api_get_report example_env ''missing.json'' stored_world) = Failed 404 ''report not found'' \<and>
   fst (api_get_report example_env ''stored.json'' stored_world) = Ok200 (report_json example_report)"
proof -
  have dir: "reports_directory example_env = ''./reports''"
    by (simp add: example_env_def)
  have missing: "files stored_world ''./reports/missing.json'' = None"
    by (simp add: stored_world_def save_report_def write_json_def osint_reports_dir_def
          path_join_def dirname_def emit_def example_world_def makedirs_def Let_def)
  have stored: "files stored_world ''./reports/stored.json'' = Some (JsonFile (report_json example_report))"
    by (simp add: stored_world_def save_report_def write_json_def osint_reports_dir_def
          path_join_def dirname_def emit_def example_world_def makedirs_def Let_def)
  have join: "path_join ''./reports'' ''missing.json'' = ''./reports/missing.json''"
    "path_join ''./reports'' ''stored.json'' = ''./reports/stored.json''"
    by (simp_all add: path_join_def)
  show ?thesis
    using api_get_report_cases [of example_env "''../secret.json''" stored_world]
      api_get_report_cases [of example_env "''x.txt''" stored_world]
      api_get_report_cases [of example_env "''missing.json''" stored_world]
      api_get_report_cases [of example_env "''stored.json''" stored_world]
    by (simp add: endswith_def dir join missing stored)
qed

subsection \<open>Saving a report and fetching it back\<close>

lemma digit_is_digit: "digit n \<in> set ''0123456789''"
proof -
  have "n mod 10 < length ''0123456789''" by simp
  then show ?thesis unfolding digit_def by (rule nth_mem)
qed

lemma digit_not_separator:
  "digit n \<noteq> CHR ''/''" "digit n \<noteq> CHR 0x5C" "CHR ''/'' \<noteq> digit n" "CHR 0x5C \<noteq> digit n"
  using digit_is_digit [of n] by auto

lemma strftime_stamp_no_separator:
  "CHR ''/'' \<notin> set (strftime_stamp t)" "CHR 0x5C \<notin> set (strftime_stamp t)"
  by (simp_all add: strftime_stamp_def pad2_def pad4_def digit_not_separator)

lemma report_filename_no_separator:
  assumes "CHR ''/'' \<notin> set (target r)" "CHR 0x5C \<notin> set (target r)"
  shows "CHR ''/'' \<notin> set (report_filename env r)" "CHR 0x5C \<notin> set (report_filename env r)"
  using assms strftime_stamp_no_separator [of "now env"]
  by (auto simp: report_filename_def replace_char_def split: if_splits)

lemma endswith_append: "endswith (xs @ suffix) suffix"
  by (simp add: endswith_def)

lemma report_filename_json: "endswith (report_filename env r) ''.json''"
proof -
  have "report_filename env r =
          (''osint_report_'' @ replace_char (CHR ''.'') (CHR ''_'') (replace_char (CHR ''@'') (CHR ''_'') (target r)) @
           ''_'' @ strftime_stamp (now env)) @ ''.json''"
    by (simp add: report_filename_def)
  then show ?thesis by (simp only: endswith_append)
qed

lemma basename_path_join:
  assumes "CHR ''/'' \<notin> set name"
  shows "basename (path_join d name) = name"
proof -
  have tw: "takeWhile (\<lambda>c. c \<noteq> CHR ''/'') (rev name) = rev name"
    using assms by auto
  have app: "takeWhile (\<lambda>c. c \<noteq> CHR ''/'') (rev name @ ys) =
               rev name @ takeWhile (\<lambda>c. c \<noteq> CHR ''/'') ys" for ys
    by (rule takeWhile_append2) (use assms in auto)
  have hd_not: "name \<noteq> [] \<Longrightarrow> hd name \<noteq> CHR ''/''"
    using assms by (cases name) auto
  show ?thesis
  proof (cases "d = [] \<or> last d = CHR ''/''")
    case True
    then have "takeWhile (\<lambda>c. c \<noteq> CHR ''/'') (rev d) = []"
      by (cases d rule: rev_cases) auto
    with True hd_not show ?thesis
      by (auto simp: basename_def path_join_def app tw)
  next
    case False
    with hd_not show ?thesis
      by (auto simp: basename_def path_join_def app)
  qed
qed

lemma write_json_Inr:
  assumes "write_json path doc w = (Inr u, w')"
  shows "files w' path = Some (JsonFile doc)"
  using assms by (auto simp: write_json_def Let_def emit_def split: if_splits)

text \<open>
  \<open>save_report\<close> succeeds when the directory of the path exists and the path is not
  itself a directory.
\<close>

lemma save_report_succeeds:
  assumes "files w (dirname (path_join d (report_filename env r))) = Some Directory"
    and "files w (path_join d (report_filename env r)) \<noteq> Some Directory"
  shows "fst (save_report d env r None w) = Inr (path_join d (report_filename env r))"
  using assms by (simp add: save_report_def write_json_def Let_def)

text \<open>
  Claim C8, amended. \<open>save_report\<close> returns the path of the file it wrote, the
  directory joined with the generated name, not the bare name. When the save succeeds,
  the target of the report holds neither a slash nor a backslash, and the route reads
  the directory the reporter wrote to, the last component of the returned path is the
  generated name, and fetching by it answers with the JSON document of the report. A
  returned path that holds a slash is itself refused by the check of the file name.
\<close>

theorem save_then_get_by_basename:
  assumes "save_report d env r None w = (Inr p, w')"
    and "CHR ''/'' \<notin> set (target r)" "CHR 0x5C \<notin> set (target r)"
    and "reports_directory env = d"
  shows "p = path_join d (report_filename env r) \<and>
         basename p = report_filename env r \<and>
         fst (api_get_report env (basename p) w') = Ok200 (report_json r) \<and>
         (CHR ''/'' \<in> set p \<longrightarrow> fst (api_get_report env p w') = Failed 400 ''invalid file name'')"
proof -
  let ?name = "report_filename env r"
  from assms(1) have p: "p = path_join d ?name"
    and "\<exists>u. write_json (path_join d ?name) (report_json r) w = (Inr u, w')"
    by (auto simp: save_report_def Let_def split: prod.splits sum.splits)
  then have stored: "files w' (path_join d ?name) = Some (JsonFile (report_json r))"
    by (auto dest: write_json_Inr)
  have sep: "CHR ''/'' \<notin> set ?name" "CHR 0x5C \<notin> set ?name"
    using assms(2,3) by (rule report_filename_no_separator)+
  have base: "basename p = ?name"
    unfolding p using sep(1) by (rule basename_path_join)
  have "fst (api_get_report env ?name w') = Ok200 (report_json r)"
    using api_get_report_accepted [OF sep report_filename_json, where env = env and w = w']
      stored assms(4)
    by simp
  moreover have "CHR ''/'' \<in> set p \<longrightarrow> fst (api_get_report env p w') = Failed 400 ''invalid file name''"
    by (simp add: api_get_report_rejected)
  ultimately show ?thesis using p base by simp
qed

theorem save_then_get_by_basename_witness:
  "save_report ''./reports'' example_env example_report None example_world =
     (Inr ''./reports/osint_report_user_example_com_20240102_030405.json'',
      snd (save_report ''./reports'' example_env example_report None example_world)) \<and>
   basename ''./reports/osint_report_user_example_com_20240102_030405.json'' =
     ''osint_report_user_example_com_20240102_030405.json'' \<and>
   fst (api_get_report example_env ''osint_report_user_example_com_20240102_030405.json''
          (snd (save_report ''./reports'' example_env example_report None example_world))) =
     Ok200 (report_json example_report)"
proof -
  let ?p = "''./reports/osint_report_user_example_com_20240102_030405.json''"
  let ?w' = "snd (save_report ''./reports'' example_env example_report None example_world)"
  have name: "report_filename example_env example_report =
                ''osint_report_user_example_com_20240102_030405.json''"
    by (simp add: report_filename_def example_report_def example_env_def replace_char_def
          strftime_stamp_def pad2_def pad4_def digit_def)
  have "fst (save_report ''./reports'' example_env example_report None example_world) = Inr ?p"
    by (simp add: save_report_def name write_json_def path_join_def dirname_def
          example_world_def makedirs_def Let_def)
  then have saved: "save_report ''./reports'' example_env example_report None example_world = (Inr ?p, ?w')"
    by (simp add: prod_eq_iff)
  have t: "CHR ''/'' \<notin> set (target example_report)" "CHR 0x5C \<notin> set (target example_report)"
    by (simp_all add: example_report_def)
  have d: "reports_directory example_env = ''./reports''"
    by (simp add: example_env_def)
  note rt = save_then_get_by_basename [OF saved t d, unfolded name]
  from rt have b: "basename ?p = ''osint_report_user_example_com_20240102_030405.json''"
    by blast
  from rt have "fst (api_get_report example_env (basename ?p) ?w') = Ok200 (report_json example_report)"
    by blast
  then have "fst (api_get_report example_env ''osint_report_user_example_com_20240102_030405.json'' ?w') =
               Ok200 (report_json example_report)"
    by (simp only: b)
  with saved b show ?thesis by blast
qed

text \<open>
  Claim C8 as stated, fetching by what \<open>save_report\<close> returned, fails: the returned
  path holds a slash and the route refuses it. Fetching by the name alone fails as well
  for a report whose target holds a backslash: the file is written, and the check of
  the file name refuses its name.
\<close>

theorem save_then_get_counterexample:
  "fst (save_report osint_reports_dir example_env example_report None example_world) =
     Inr ''./reports/osint_report_user_example_com_20240102_030405.json'' \<and>
   fst (api_get_report example_env ''./reports/osint_report_user_example_com_20240102_030405.json''
          (snd (save_report osint_reports_dir example_env example_report None example_world))) =
     Failed 400 ''invalid file name'' \<and>
   fst (save_report osint_reports_dir example_env backslash_report None example_world) =
     Inr (''./reports/osint_report_a'' @ [CHR 0x5C] @ ''b_20240102_030405.json'') \<and>
   fst (api_get_report example_env (''osint_report_a'' @ [CHR 0x5C] @ ''b_20240102_030405.json'')
          (snd (save_report osint_reports_dir example_env backslash_report None example_world))) =
     Failed 400 ''invalid file name''"
  by code_simp


subsection \<open>Checking one email against chosen sources\<close>

lemma call_attr_adapter:
  assumes "map_of (adapters env) source = Some attr"
  shows "call_attr env source email w =
           Some (Inr (Json (fst (attr email w))), snd (attr email w))"
  using assms by (simp add: call_attr_def split: prod.splits)

text \<open>
  \<open>hasattr(osint, source)\<close> holds for the names of \<open>attr_names\<close> and for no other.
\<close>

lemma call_attr_None_iff:
  "call_attr env source email w = None \<longleftrightarrow> source \<notin> set (attr_names env)"
proof (cases "map_of (adapters env) source")
  case None
  then have "source \<notin> set (map fst (adapters env))"
    by (simp add: map_of_eq_None_iff)
  with None show ?thesis
    by (simp add: call_attr_def attr_names_def)
next
  case (Some attr)
  then have "source \<in> set (map fst (adapters env))"
    by (metis map_of_eq_None_iff option.distinct(1) set_map)
  with Some show ?thesis
    by (simp add: call_attr_def attr_names_def split: prod.splits)
qed

lemma keys_dict_set: "fst ` set (dict_set d k v) = insert k (fst ` set d)"
  by (induction d k v rule: dict_set.induct) auto

text \<open>
  The keys of the outcome map after the loop are the requested names the engine object
  answers to, adapters or not; for a name it does not answer to, the loop goes on with
  the outcome map and the state as they are.
\<close>

lemma check_sources_keys:
  "fst ` set (fst (check_sources env sources email results w)) =
     fst ` set results \<union> (set sources \<inter> set (attr_names env))"
proof (induction sources arbitrary: results w)
  case Nil
  show ?case by simp
next
  case (Cons source rest)
  show ?case
  proof (cases "call_attr env source email w")
    case None
    then have "source \<notin> set (attr_names env)"
      by (simp add: call_attr_None_iff)
    with None Cons.IH [of results w] show ?thesis by auto
  next
    case (Some rw)
    then have "source \<in> set (attr_names env)"
      using call_attr_None_iff [of env source email w] by auto
    with Some Cons.IH show ?thesis
      by (cases rw; cases "fst rw") (auto simp: keys_dict_set)
  qed
qed

lemma check_sources_no_attr:
  assumes "source \<notin> set (attr_names env)"
  shows "check_sources env (source # rest) email results w = check_sources env rest email results w"
proof -
  from assms have "call_attr env source email w = None"
    by (simp add: call_attr_None_iff)
  then show ?thesis by simp
qed

text \<open>
  Claim C5 says that a requested name that is not a source adapter is ignored and
  absent from the result. The name \<open>validator\<close> is no adapter, it is a field of the
  engine object: requested with a valid email, it is looked up, called, and the error
  of the call is returned under its name.
\<close>

theorem email_check_calls_non_adapter:
  "map_of (adapters example_env) ''validator'' = None \<and>
   fst (api_email_check example_env ''user@example.com'' (Some [''validator'']) example_world) =
     Ok200 \<lparr>checked_email = ''user@example.com'',
            check_results =
              [(''validator'', JObj [(''error'', JStr ''error in validator: object is not callable'')])],
            check_timestamp = ''2024-01-02T03:04:05''\<rparr>"
proof
  show "map_of (adapters example_env) ''validator'' = None"
    by (simp add: adapters_def email_sources_def username_sources_def)
  show "fst (api_email_check example_env ''user@example.com'' (Some [''validator'']) example_world) =
     Ok200 \<lparr>checked_email = ''user@example.com'',
            check_results =
              [(''validator'', JObj [(''error'', JStr ''error in validator: object is not callable'')])],
            check_timestamp = ''2024-01-02T03:04:05''\<rparr>"
    by code_simp
qed

text \<open>
  Other names reach further: \<open>_command_exists\<close> runs the email as a program, and
  \<open>comprehensive_search\<close> runs the whole search and writes a report.
\<close>

lemma email_check_runs_program:
  "trace (snd (api_email_check example_env ''user@example.com'' (Some [''_command_exists'']) example_world)) =
     [Run [''user@example.com'', ''--version''] None]"
  by code_simp


end
